theory Spec2Isabelle
  imports Complex_Main "HOL-Library.Char_ord" "HOL-Library.List_Lexorder" "HOL-Library.AList"
    "HOL-Library.Code_Target_Nat" "HOL-Library.Multiset"
begin

section \<open>JavaScript strings, Maps and Sets\<close>

text \<open>
  Strings are modelled as \<^typ>\<open>string\<close> over the ASCII range: \<open>toLowerCase\<close> maps
  \<open>A..Z\<close> to \<open>a..z\<close>, and the whitespace class \<open>\s\<close> is the six ASCII white space
  characters (space, tab, line feed, vertical tab, form feed, carriage return).
  Numbers are modelled as \<^typ>\<open>int\<close> where only integral values matter (\<open>limit\<close>, \<open>offset\<close>)
  and as \<^typ>\<open>rat\<close> elsewhere; NaN and the infinities are outside the model.
\<close>

definition lower_char :: "char \<Rightarrow> char" where
  "lower_char c =
     (case map_of (zip ''ABCDEFGHIJKLMNOPQRSTUVWXYZ'' ''abcdefghijklmnopqrstuvwxyz'') c of
        Some d \<Rightarrow> d
      | None \<Rightarrow> c)"

definition toLowerCase :: "string \<Rightarrow> string" where
  "toLowerCase s = map lower_char s"

definition is_space :: "char \<Rightarrow> bool" where
  "is_space c = (c \<in> set [CHR '' '', CHR 0x09, CHR 0x0A, CHR 0x0B, CHR 0x0C, CHR 0x0D])"

text \<open>\<open>s.split(/\s+/)\<close>: the pieces between maximal runs of white space. The empty string
  gives one empty piece; leading or trailing white space gives an empty first or last piece.\<close>

function split_ws :: "string \<Rightarrow> string list" where
  "split_ws [] = [[]]"
| "split_ws (c # s) =
     (if is_space c then [] # split_ws (dropWhile is_space s)
      else (case split_ws s of
              [] \<Rightarrow> [[c]]
            | t # ts \<Rightarrow> (c # t) # ts))"
  by pat_completeness auto
termination
  by (relation "measure length") (auto simp: less_Suc_eq_le length_dropWhile_le)

text \<open>\<open>s.trim()\<close>.\<close>

definition trim :: "string \<Rightarrow> string" where
  "trim s = rev (dropWhile is_space (rev (dropWhile is_space s)))"

text \<open>\<open>xs.join(sep)\<close>.\<close>

fun join :: "string \<Rightarrow> string list \<Rightarrow> string" where
  "join sep [] = []"
| "join sep [x] = x"
| "join sep (x # y # ys) = x @ sep @ join sep (y # ys)"

text \<open>\<open>s.includes(t)\<close> on strings: \<open>t\<close> occurs in \<open>s\<close> as a contiguous substring.\<close>

fun str_includes :: "string \<Rightarrow> string \<Rightarrow> bool" where
  "str_includes [] t = (t = [])"
| "str_includes (c # s) t = (take (length t) (c # s) = t \<or> str_includes s t)"

text \<open>Decimal rendering of a non-negative integer, as in a template literal.\<close>

fun show_nat :: "nat \<Rightarrow> string" where
  "show_nat n =
     (if n < 10 then [''0123456789'' ! n]
      else show_nat (n div 10) @ [''0123456789'' ! (n mod 10)])"

text \<open>
  A JavaScript \<open>Map\<close> is an association list in insertion order with distinct keys:
  \<open>get\<close> is \<^const>\<open>map_of\<close>, \<open>set\<close> is \<^const>\<open>AList.update\<close> (an existing key keeps its
  place, a new key goes last), \<open>delete\<close> is \<^const>\<open>AList.delete\<close>. A \<open>Set\<close> is a
  duplicate-free list in insertion order.
\<close>

type_synonym ('k, 'v) js_map = "('k \<times> 'v) list"

type_synonym 'a js_set = "'a list"

definition set_add :: "'a \<Rightarrow> 'a js_set \<Rightarrow> 'a js_set" where
  "set_add x s = (if x \<in> set s then s else s @ [x])"

definition set_delete :: "'a \<Rightarrow> 'a js_set \<Rightarrow> 'a js_set" where
  "set_delete x s = removeAll x s"

text \<open>\<open>[...new Set(xs)]\<close>: first occurrences, in order.\<close>

definition new_Set :: "'a list \<Rightarrow> 'a js_set" where
  "new_Set xs = foldl (\<lambda>s x. set_add x s) [] xs"

section \<open>Data model (types/agent.ts)\<close>

datatype json =
    JUndefined
  | JNull
  | JBool bool
  | JNum rat
  | JStr string
  | JArr "json list"
  | JObj "(string \<times> json) list"

record ModelRequirements =
  min_context :: "int option"
  max_tokens :: "int option"
  preferred_models :: "string list option"
  temperature :: "rat option"

record Parameters =
  max_iterations :: "int option"
  confidence_threshold :: "rat option"
  extra_keys :: "(string \<times> json) list"

datatype Difficulty = beginner | intermediate | advanced

record AgentMetadata =
  name :: string
  version :: "string option"
  description :: "string option"
  role :: "string option"
  specialization :: "string option"
  capabilities :: "string list option"
  coding_languages :: "string list option"
  frameworks :: "string list option"
  tools :: "string list option"
  technologies :: "string list option"
  industries :: "string list option"
  skills :: "string list option"
  domains :: "string list option"
  languages :: "string list option"
  model_requirements :: "ModelRequirements option"
  parameters :: "Parameters option"
  author :: "string option"
  organization :: "string option"
  email :: "string option"
  license :: "string option"
  created :: "string option"
  updated :: "string option"
  maintainers :: "string list option"
  tags :: "string list option"
  keywords' :: "string list option"
  category :: "string option"
  subcategory :: "string option"
  use_cases :: "string list option"
  difficulty :: "Difficulty option"
  dependencies :: "string list option"
  integrations :: "string list option"
  apis :: "string list option"
  requires_internet :: "bool option"

text \<open>An agent that has a name and nothing else.\<close>

definition agent_named :: "string \<Rightarrow> AgentMetadata" where
  "agent_named n =
     \<lparr> name = n, version = None, description = None, role = None, specialization = None,
       capabilities = None, coding_languages = None, frameworks = None, tools = None,
       technologies = None, industries = None, skills = None, domains = None,
       languages = None, model_requirements = None, parameters = None, author = None,
       organization = None, email = None, license = None, created = None, updated = None,
       maintainers = None, tags = None, keywords' = None, category = None,
       subcategory = None, use_cases = None, difficulty = None, dependencies = None,
       integrations = None, apis = None, requires_internet = None \<rparr>"

text \<open>\<open>x || ''\<close> and \<open>x || []\<close> on optional fields; \<open>[x].filter(Boolean)\<close> on an optional
  string.\<close>

definition or_empty :: "'a list option \<Rightarrow> 'a list" where
  "or_empty x = (case x of None \<Rightarrow> [] | Some v \<Rightarrow> v)"

definition truthy_str :: "string option \<Rightarrow> bool" where
  "truthy_str x = (case x of None \<Rightarrow> False | Some s \<Rightarrow> s \<noteq> [])"

section \<open>SearchIndex (search/index)\<close>

record SearchIndex =
  index :: "(string, string js_set) js_map"
  documents :: "(string, AgentMetadata) js_map"

definition new_SearchIndex :: SearchIndex where
  "new_SearchIndex = \<lparr> index = [], documents = [] \<rparr>"

definition searchableText :: "AgentMetadata \<Rightarrow> string" where
  "searchableText metadata =
     toLowerCase (join '' ''
       (filter (\<lambda>s. s \<noteq> [])
          ([name metadata, or_empty (description metadata), or_empty (role metadata),
            or_empty (specialization metadata)]
           @ or_empty (capabilities metadata)
           @ or_empty (tags metadata)
           @ or_empty (keywords' metadata)
           @ or_empty (use_cases metadata))))"

definition index_token :: "string \<Rightarrow> (string, string js_set) js_map \<Rightarrow> string
    \<Rightarrow> (string, string js_set) js_map" where
  "index_token docId ix token =
     (let ix' = (if map_of ix token = None then AList.update token [] ix else ix)
      in AList.update token (set_add docId (or_empty (map_of ix' token))) ix')"

definition addDocument :: "string \<Rightarrow> AgentMetadata \<Rightarrow> SearchIndex \<Rightarrow> SearchIndex" where
  "addDocument docId metadata S =
     \<lparr> index = foldl (index_token docId) (index S) (split_ws (searchableText metadata)),
       documents = AList.update docId metadata (documents S) \<rparr>"

definition removeDocument :: "string \<Rightarrow> SearchIndex \<Rightarrow> SearchIndex" where
  "removeDocument docId S =
     \<lparr> index = filter (\<lambda>(token, ids). ids \<noteq> [])
                 (map (\<lambda>(token, ids). (token, set_delete docId ids)) (index S)),
       documents = AList.delete docId (documents S) \<rparr>"

text \<open>\<open>results.set(id, (results.get(id) || 0) + n)\<close>. (The source's \<open>id\<close> is written
  \<open>docId\<close> here, \<open>id\<close> being the identity function of HOL.)\<close>

definition add_score :: "nat \<Rightarrow> (string, nat) js_map \<Rightarrow> string \<Rightarrow> (string, nat) js_map" where
  "add_score n results docId =
     AList.update docId ((case map_of results docId of None \<Rightarrow> 0 | Some s \<Rightarrow> s) + n) results"

definition search_token :: "(string, string js_set) js_map \<Rightarrow> (string, nat) js_map \<Rightarrow> string
    \<Rightarrow> (string, nat) js_map" where
  "search_token ix results token =
     (let exact = (case map_of ix token of
                     None \<Rightarrow> results
                   | Some exactMatches \<Rightarrow> foldl (add_score 2) results exactMatches)
      in foldl (\<lambda>r (indexToken, ids).
                  if str_includes indexToken token then foldl (add_score 1) r ids else r)
           exact ix)"

definition search_scores :: "SearchIndex \<Rightarrow> string \<Rightarrow> (string, nat) js_map" where
  "search_scores S query = foldl (search_token (index S)) [] (split_ws (toLowerCase query))"

text \<open>\<open>Array.prototype.sort\<close> is stable; with the comparator \<open>b[1] - a[1]\<close> it orders by
  descending score and keeps insertion order among equal scores.\<close>

definition SearchIndex_search :: "SearchIndex \<Rightarrow> string \<Rightarrow> string list" where
  "SearchIndex_search S query =
     map fst (sort_key (\<lambda>(docId, score). - int score) (search_scores S query))"

text \<open>
  The ranking rule in the specification's words: per query token, two points for a document
  in the posting set of exactly that token, and one point for every index token that
  contains the query token and has the document in its posting set.
\<close>

definition exact_points :: "(string, string js_set) js_map \<Rightarrow> string \<Rightarrow> string \<Rightarrow> nat" where
  "exact_points ix token d =
     (case map_of ix token of None \<Rightarrow> 0 | Some ids \<Rightarrow> if d \<in> set ids then 2 else 0)"

definition substring_points :: "(string, string js_set) js_map \<Rightarrow> string \<Rightarrow> string \<Rightarrow> nat" where
  "substring_points ix token d =
     length (filter (\<lambda>(indexToken, ids). str_includes indexToken token \<and> d \<in> set ids) ix)"

definition spec_score :: "SearchIndex \<Rightarrow> string \<Rightarrow> string \<Rightarrow> nat" where
  "spec_score S q d =
     sum_list (map (\<lambda>token. exact_points (index S) token d + substring_points (index S) token d)
                 (split_ws (toLowerCase q)))"

text \<open>The representation invariant of the index: the keys of the \<open>Map\<close> are distinct, and
  every posting \<open>Set\<close> is duplicate-free and non-empty.\<close>

definition postings_wf :: "(string, string js_set) js_map \<Rightarrow> bool" where
  "postings_wf ix =
     (distinct (map fst ix) \<and> list_all (\<lambda>(token, ids). distinct ids \<and> ids \<noteq> []) ix)"

definition index_wf :: "SearchIndex \<Rightarrow> bool" where
  "index_wf S = postings_wf (index S)"

text \<open>The score a result \<open>Map\<close> holds for a document, and the invariant of the result
  \<open>Map\<close> while \<open>search\<close> runs: its keys are the documents with a positive score.\<close>

definition score_of :: "(string, nat) js_map \<Rightarrow> string \<Rightarrow> nat" where
  "score_of results d = (case map_of results d of None \<Rightarrow> 0 | Some s \<Rightarrow> s)"

definition scored_positive :: "(string, nat) js_map \<Rightarrow> bool" where
  "scored_positive results =
     (distinct (map fst results) \<and> fst ` set results = {d. 0 < score_of results d})"

section \<open>AgentSearchEngine (search/index)\<close>

record SearchFilters =
  filter_capabilities :: "string list option"
  filter_coding_languages :: "string list option"
  filter_frameworks :: "string list option"
  filter_industries :: "string list option"
  filter_tags :: "string list option"
  filter_category :: "string option"
  filter_difficulty :: "Difficulty option"
  filter_author :: "string option"
  filter_organization :: "string option"
  filter_requires_internet :: "bool option"

datatype SortField = Name | Version | Created | Updated | Relevance

datatype SortOrder = Asc | Desc

record SortOption =
  field :: SortField
  order :: SortOrder

record SearchOptions =
  query :: "string option"
  filters :: "SearchFilters option"
  sort_option :: "SortOption option"
  limit :: "int option"
  offset :: "int option"

record SearchResult =
  agents :: "AgentMetadata list"
  total :: nat
  page :: int
  pageSize :: int

record AgentSearchEngine =
  agents_map :: "(string, AgentMetadata) js_map"
  searchIndex :: SearchIndex

definition new_AgentSearchEngine :: AgentSearchEngine where
  "new_AgentSearchEngine = \<lparr> agents_map = [], searchIndex = new_SearchIndex \<rparr>"

definition addAgent :: "string \<Rightarrow> AgentMetadata \<Rightarrow> AgentSearchEngine \<Rightarrow> AgentSearchEngine" where
  "addAgent agentId metadata E =
     \<lparr> agents_map = AList.update agentId metadata (agents_map E),
       searchIndex = addDocument agentId metadata (searchIndex E) \<rparr>"

definition removeAgent :: "string \<Rightarrow> AgentSearchEngine \<Rightarrow> AgentSearchEngine" where
  "removeAgent agentId E =
     \<lparr> agents_map = AList.delete agentId (agents_map E),
       searchIndex = removeDocument agentId (searchIndex E) \<rparr>"

definition getAgentId :: "AgentMetadata \<Rightarrow> string" where
  "getAgentId agent =
     name agent @ ''-'' @ (if truthy_str (version agent) then or_empty (version agent) else ''latest'')"

text \<open>\<open>wanted?.length\<close> is truthy and no wanted value is in the agent's array
  (\<open>agent.field?.includes(v)\<close> is falsy when the field is absent).\<close>

definition lacks_any :: "string list option \<Rightarrow> string list option \<Rightarrow> bool" where
  "lacks_any wanted have =
     (or_empty wanted \<noteq> [] \<and> \<not> list_ex (\<lambda>v. v \<in> set (or_empty have)) (or_empty wanted))"

definition filter_accepts :: "SearchFilters \<Rightarrow> AgentMetadata \<Rightarrow> bool" where
  "filter_accepts f agent =
     (if lacks_any (filter_capabilities f) (capabilities agent) then False
      else if lacks_any (filter_coding_languages f) (coding_languages agent) then False
      else if lacks_any (filter_frameworks f) (frameworks agent) then False
      else if truthy_str (filter_category f) \<and> category agent \<noteq> filter_category f then False
      else if filter_difficulty f \<noteq> None \<and> difficulty agent \<noteq> filter_difficulty f then False
      else if filter_requires_internet f \<noteq> None
              \<and> requires_internet agent \<noteq> filter_requires_internet f then False
      else True)"

definition applyFilters :: "AgentMetadata list \<Rightarrow> SearchFilters \<Rightarrow> AgentMetadata list" where
  "applyFilters as f = filter (filter_accepts f) as"

text \<open>\<open>String.prototype.localeCompare\<close> depends on the host's collation; it is a parameter
  \<open>lc\<close> of the engine's sort. The sort itself is stable.\<close>

definition compare_agents :: "(string \<Rightarrow> string \<Rightarrow> int) \<Rightarrow> SortOption
    \<Rightarrow> AgentMetadata \<Rightarrow> AgentMetadata \<Rightarrow> int" where
  "compare_agents lc s a b =
     (let comparison =
        (case field s of
           Name \<Rightarrow> lc (name a) (name b)
         | Created \<Rightarrow> lc (or_empty (created a)) (or_empty (created b))
         | Updated \<Rightarrow> lc (or_empty (updated a)) (or_empty (updated b))
         | Version \<Rightarrow> lc (or_empty (version a)) (or_empty (version b))
         | Relevance \<Rightarrow> 0)
      in if order s = Asc then comparison else - comparison)"

fun insert_by :: "('a \<Rightarrow> 'a \<Rightarrow> int) \<Rightarrow> 'a \<Rightarrow> 'a list \<Rightarrow> 'a list" where
  "insert_by cmp x [] = [x]"
| "insert_by cmp x (y # ys) = (if cmp x y \<le> 0 then x # y # ys else y # insert_by cmp x ys)"

definition stable_sort_by :: "('a \<Rightarrow> 'a \<Rightarrow> int) \<Rightarrow> 'a list \<Rightarrow> 'a list" where
  "stable_sort_by cmp xs = foldr (insert_by cmp) xs []"

definition sortResults :: "(string \<Rightarrow> string \<Rightarrow> int) \<Rightarrow> AgentMetadata list \<Rightarrow> SortOption
    \<Rightarrow> AgentMetadata list" where
  "sortResults lc as s = stable_sort_by (compare_agents lc s) as"

text \<open>\<open>xs.slice(start, end)\<close>: a negative bound counts from the end, both are clamped.\<close>

definition js_slice :: "'a list \<Rightarrow> int \<Rightarrow> int \<Rightarrow> 'a list" where
  "js_slice xs start end' =
     (let len = int (length xs);
          k = (if start < 0 then max (len + start) 0 else min start len);
          final = (if end' < 0 then max (len + end') 0 else min end' len)
      in take (nat (final - k)) (drop (nat k) xs))"

text \<open>\<open>n || d\<close> on an optional number: absent and zero both give the default.\<close>

definition or_default :: "int option \<Rightarrow> int \<Rightarrow> int" where
  "or_default n d = (case n of None \<Rightarrow> d | Some v \<Rightarrow> if v = 0 then d else v)"

text \<open>The list that \<open>search\<close> has in \<open>results\<close> when it reaches the pagination step.\<close>

definition search_results :: "(string \<Rightarrow> string \<Rightarrow> int) \<Rightarrow> AgentSearchEngine \<Rightarrow> SearchOptions
    \<Rightarrow> AgentMetadata list" where
  "search_results lc E options =
     (let all = map snd (agents_map E);
          matched = (if truthy_str (query options)
                     then (let searchIds = SearchIndex_search (searchIndex E) (or_empty (query options))
                           in filter (\<lambda>agent. getAgentId agent \<in> set searchIds) all)
                     else all);
          filtered = (case filters options of
                        None \<Rightarrow> matched
                      | Some f \<Rightarrow> applyFilters matched f)
      in (case sort_option options of
            None \<Rightarrow> filtered
          | Some s \<Rightarrow> sortResults lc filtered s))"

definition AgentSearchEngine_search :: "(string \<Rightarrow> string \<Rightarrow> int) \<Rightarrow> AgentSearchEngine
    \<Rightarrow> SearchOptions \<Rightarrow> SearchResult" where
  "AgentSearchEngine_search lc E options =
     (let results = search_results lc E options;
          offset' = or_default (offset options) 0;
          limit' = or_default (limit options) 20;
          paginatedResults = js_slice results offset' (offset' + limit')
      in \<lparr> agents = paginatedResults,
           total = length results,
           page = offset' div limit' + 1,
           pageSize = limit' \<rparr>)"

section \<open>normalizeMetadata (utils/helpers)\<close>

text \<open>\<open>[...new Set(xs)].sort()\<close>: the default sort compares strings by code units, which on
  \<^typ>\<open>string\<close> is the lexicographic order of lists over the order of characters.\<close>

definition normalize_array :: "string list option \<Rightarrow> string list option" where
  "normalize_array arr = map_option (\<lambda>xs. sort (new_Set xs)) arr"

text \<open>The first loop runs over the twelve names of \<open>arrayFields\<close>; the second loop trims
  every top-level property whose value is a string. (A \<open>difficulty\<close> is one of three words
  without white space, so trimming leaves it as it is.)\<close>

definition normalize_arrays :: "AgentMetadata \<Rightarrow> AgentMetadata" where
  "normalize_arrays metadata =
     metadata\<lparr> capabilities := normalize_array (capabilities metadata),
               coding_languages := normalize_array (coding_languages metadata),
               frameworks := normalize_array (frameworks metadata),
               tools := normalize_array (tools metadata),
               technologies := normalize_array (technologies metadata),
               industries := normalize_array (industries metadata),
               skills := normalize_array (skills metadata),
               domains := normalize_array (domains metadata),
               languages := normalize_array (languages metadata),
               tags := normalize_array (tags metadata),
               keywords' := normalize_array (keywords' metadata),
               use_cases := normalize_array (use_cases metadata) \<rparr>"

definition trim_strings :: "AgentMetadata \<Rightarrow> AgentMetadata" where
  "trim_strings normalized =
     normalized\<lparr> name := trim (name normalized),
                 version := map_option trim (version normalized),
                 description := map_option trim (description normalized),
                 role := map_option trim (role normalized),
                 specialization := map_option trim (specialization normalized),
                 author := map_option trim (author normalized),
                 organization := map_option trim (organization normalized),
                 email := map_option trim (email normalized),
                 license := map_option trim (license normalized),
                 created := map_option trim (created normalized),
                 updated := map_option trim (updated normalized),
                 category := map_option trim (category normalized),
                 subcategory := map_option trim (subcategory normalized) \<rparr>"

definition normalizeMetadata :: "AgentMetadata \<Rightarrow> AgentMetadata" where
  "normalizeMetadata metadata = trim_strings (normalize_arrays metadata)"

section \<open>Semantic versions\<close>

text \<open>
  The grammar of a semantic version, \<open>MAJOR.MINOR.PATCH[-prerelease][+build]\<close>, as the
  schema's \<open>semverRegex\<close> and the \<open>semver\<close> package both have it. Neither the core nor a
  pre-release may contain \<open>+\<close>, and the core may not contain \<open>-\<close>, so the build part starts
  at the first \<open>+\<close> and the pre-release at the first \<open>-\<close> before it.
\<close>

definition is_digit :: "char \<Rightarrow> bool" where
  "is_digit c = (c \<in> set ''0123456789'')"

definition is_ident_char :: "char \<Rightarrow> bool" where
  "is_ident_char c =
     (c \<in> set ''0123456789abcdefghijklmnopqrstuvwxyzABCDEFGHIJKLMNOPQRSTUVWXYZ-'')"

definition digit_val :: "char \<Rightarrow> nat" where
  "digit_val c = (case map_of (zip ''0123456789'' [0, 1, 2, 3, 4, 5, 6, 7, 8, 9]) c of
                    Some n \<Rightarrow> n
                  | None \<Rightarrow> 0)"

definition nat_of_digits :: "string \<Rightarrow> nat" where
  "nat_of_digits s = foldl (\<lambda>n c. 10 * n + digit_val c) 0 s"

text \<open>\<open>s.split(c)\<close> for a one-character separator.\<close>

fun split_on :: "char \<Rightarrow> string \<Rightarrow> string list" where
  "split_on sep [] = [[]]"
| "split_on sep (c # s) =
     (if c = sep then [] # split_on sep s
      else (case split_on sep s of
              [] \<Rightarrow> [[c]]
            | t # ts \<Rightarrow> (c # t) # ts))"

text \<open>The text before the first occurrence of a character, and the text after it if the
  character occurs.\<close>

fun cut_at :: "char \<Rightarrow> string \<Rightarrow> string \<times> string option" where
  "cut_at sep [] = ([], None)"
| "cut_at sep (c # s) =
     (if c = sep then ([], Some s)
      else (case cut_at sep s of (before, after) \<Rightarrow> (c # before, after)))"

text \<open>\<open>0|[1-9]\d*\<close>, \<open>\d*[a-zA-Z-][0-9a-zA-Z-]*\<close> and \<open>[0-9a-zA-Z-]+\<close>.\<close>

definition numeric_identifier :: "string \<Rightarrow> bool" where
  "numeric_identifier s = (s \<noteq> [] \<and> list_all is_digit s \<and> (s = ''0'' \<or> hd s \<noteq> CHR ''0''))"

definition nonnumeric_identifier :: "string \<Rightarrow> bool" where
  "nonnumeric_identifier s = (list_all is_ident_char s \<and> list_ex (\<lambda>c. \<not> is_digit c) s)"

definition prerelease_identifier :: "string \<Rightarrow> bool" where
  "prerelease_identifier s = (numeric_identifier s \<or> nonnumeric_identifier s)"

definition build_identifier :: "string \<Rightarrow> bool" where
  "build_identifier s = (s \<noteq> [] \<and> list_all is_ident_char s)"

record SemVer =
  major :: nat
  minor :: nat
  patch :: nat
  prerelease :: "string list"
  build :: "string list"

definition parse_plain :: "string \<Rightarrow> SemVer option" where
  "parse_plain s =
     (case cut_at CHR ''+'' s of (main_pre, build_part) \<Rightarrow>
      case cut_at CHR ''-'' main_pre of (main, pre_part) \<Rightarrow>
        (let pre = (case pre_part of None \<Rightarrow> [] | Some p \<Rightarrow> split_on CHR ''.'' p);
             bld = (case build_part of None \<Rightarrow> [] | Some b \<Rightarrow> split_on CHR ''.'' b)
         in case split_on CHR ''.'' main of
              [a, b, c] \<Rightarrow>
                if numeric_identifier a \<and> numeric_identifier b \<and> numeric_identifier c
                   \<and> list_all prerelease_identifier pre \<and> list_all build_identifier bld
                then Some \<lparr> major = nat_of_digits a, minor = nat_of_digits b,
                            patch = nat_of_digits c, prerelease = pre, build = bld \<rparr>
                else None
            | _ \<Rightarrow> None))"

text \<open>The schema's \<open>semverRegex.test(s)\<close>.\<close>

definition semverRegex :: "string \<Rightarrow> bool" where
  "semverRegex s = (parse_plain s \<noteq> None)"

section \<open>The semver package, as far as checkCompatibility uses it\<close>

text \<open>
  \<open>semver\<close> is an external package. \<open>checkCompatibility\<close> takes the four functions it calls
  as a parameter, with their exceptions as values. \<open>node_semver\<close> below models them after
  the package's documented behaviour, for versions and for ranges that are one comparator
  (an optional \<open>=\<close>, \<open><\<close>, \<open><=\<close>, \<open>>\<close>, \<open>>=\<close>, \<open>^\<close> or \<open>~\<close> before a full version); it answers
  \<open>false\<close> for every other range text, as the package does for a range it cannot parse.
\<close>

datatype js_error = TypeError string

record semver_lib =
  semver_clean :: "string \<Rightarrow> string option"
  semver_satisfies :: "string \<Rightarrow> string \<Rightarrow> bool"
  semver_major :: "string \<Rightarrow> js_error + nat"
  semver_lt :: "string \<Rightarrow> string \<Rightarrow> js_error + bool"

definition MAX_LENGTH :: nat where
  "MAX_LENGTH = 256"

definition MAX_SAFE_INTEGER :: nat where
  "MAX_SAFE_INTEGER = 9007199254740991"

text \<open>\<open>new SemVer(version)\<close>, with \<open>None\<close> where the constructor throws.\<close>

definition new_SemVer :: "string \<Rightarrow> SemVer option" where
  "new_SemVer ver =
     (if length ver > MAX_LENGTH then None
      else (let s = trim ver;
                plain = (case s of c # r \<Rightarrow> if c = CHR ''v'' then r else s | [] \<Rightarrow> s)
            in case parse_plain plain of
                 None \<Rightarrow> None
               | Some sv \<Rightarrow>
                   if major sv > MAX_SAFE_INTEGER \<or> minor sv > MAX_SAFE_INTEGER
                      \<or> patch sv > MAX_SAFE_INTEGER
                   then None else Some sv))"

definition format_version :: "SemVer \<Rightarrow> string" where
  "format_version sv =
     show_nat (major sv) @ ''.'' @ show_nat (minor sv) @ ''.'' @ show_nat (patch sv)
       @ (if prerelease sv = [] then [] else ''-'' @ join ''.'' (prerelease sv))"

definition clean :: "string \<Rightarrow> string option" where
  "clean ver =
     map_option format_version
       (new_SemVer (dropWhile (\<lambda>c. c = CHR ''='' \<or> c = CHR ''v'') (trim ver)))"

definition compare_nat :: "nat \<Rightarrow> nat \<Rightarrow> int" where
  "compare_nat a b = (if a = b then 0 else if a < b then - 1 else 1)"

definition compareIdentifiers :: "string \<Rightarrow> string \<Rightarrow> int" where
  "compareIdentifiers a b =
     (let anum = (a \<noteq> [] \<and> list_all is_digit a);
          bnum = (b \<noteq> [] \<and> list_all is_digit b)
      in if anum \<and> bnum then compare_nat (nat_of_digits a) (nat_of_digits b)
         else if a = b then 0
         else if anum \<and> \<not> bnum then - 1
         else if bnum \<and> \<not> anum then 1
         else if a < b then - 1 else 1)"

fun comparePre_from :: "string list \<Rightarrow> string list \<Rightarrow> int" where
  "comparePre_from [] [] = 0"
| "comparePre_from (a # as) [] = 1"
| "comparePre_from [] (b # bs) = - 1"
| "comparePre_from (a # as) (b # bs) =
     (if a = b then comparePre_from as bs else compareIdentifiers a b)"

definition comparePre :: "SemVer \<Rightarrow> SemVer \<Rightarrow> int" where
  "comparePre this other =
     (if prerelease this \<noteq> [] \<and> prerelease other = [] then - 1
      else if prerelease this = [] \<and> prerelease other \<noteq> [] then 1
      else if prerelease this = [] \<and> prerelease other = [] then 0
      else comparePre_from (prerelease this) (prerelease other))"

definition compareMain :: "SemVer \<Rightarrow> SemVer \<Rightarrow> int" where
  "compareMain this other =
     (if compare_nat (major this) (major other) \<noteq> 0 then compare_nat (major this) (major other)
      else if compare_nat (minor this) (minor other) \<noteq> 0
      then compare_nat (minor this) (minor other)
      else compare_nat (patch this) (patch other))"

definition compare :: "SemVer \<Rightarrow> SemVer \<Rightarrow> int" where
  "compare this other =
     (if compareMain this other \<noteq> 0 then compareMain this other else comparePre this other)"

definition invalid_version :: "string \<Rightarrow> js_error" where
  "invalid_version v = TypeError (''Invalid Version: '' @ v)"

definition major_of :: "string \<Rightarrow> js_error + nat" where
  "major_of v = (case new_SemVer v of None \<Rightarrow> Inl (invalid_version v) | Some sv \<Rightarrow> Inr (major sv))"

definition lt :: "string \<Rightarrow> string \<Rightarrow> js_error + bool" where
  "lt a b =
     (case new_SemVer a of
        None \<Rightarrow> Inl (invalid_version a)
      | Some x \<Rightarrow>
          (case new_SemVer b of
             None \<Rightarrow> Inl (invalid_version b)
           | Some y \<Rightarrow> Inr (compare x y < 0)))"

datatype Operator = OpEq | OpLt | OpLe | OpGt | OpGe

type_synonym Comparator = "Operator \<times> SemVer"

definition comparator_test :: "Comparator \<Rightarrow> SemVer \<Rightarrow> bool" where
  "comparator_test comparator v =
     (case comparator of (operator, sv) \<Rightarrow>
        (case operator of
           OpEq \<Rightarrow> compare v sv = 0
         | OpLt \<Rightarrow> compare v sv < 0
         | OpLe \<Rightarrow> compare v sv \<le> 0
         | OpGt \<Rightarrow> compare v sv > 0
         | OpGe \<Rightarrow> compare v sv \<ge> 0))"

text \<open>\<open><M.m.p-0\<close>, the exclusive upper bound of a caret or tilde rng.\<close>

definition below :: "nat \<Rightarrow> nat \<Rightarrow> nat \<Rightarrow> Comparator" where
  "below M m p = (OpLt, \<lparr> major = M, minor = m, patch = p, prerelease = [''0''], build = [] \<rparr>)"

definition caret_range :: "SemVer \<Rightarrow> Comparator list" where
  "caret_range sv =
     [(OpGe, sv),
      (if major sv \<noteq> 0 then below (major sv + 1) 0 0
       else if minor sv \<noteq> 0 then below 0 (minor sv + 1) 0
       else below 0 0 (patch sv + 1))]"

definition tilde_range :: "SemVer \<Rightarrow> Comparator list" where
  "tilde_range sv = [(OpGe, sv), below (major sv) (minor sv + 1) 0]"

text \<open>The operator at the front of a comparator and the text after it.\<close>

fun cut_operator :: "string \<Rightarrow> string \<times> string" where
  "cut_operator (a # b # s) =
     (if [a, b] = ''>='' \<or> [a, b] = ''<='' then ([a, b], s)
      else if a \<in> set ''<>=^~'' then ([a], b # s)
      else ([], a # b # s))"
| "cut_operator s = ([], s)"

definition parse_range :: "string \<Rightarrow> Comparator list option" where
  "parse_range rng =
     (case cut_operator (trim rng) of (operator, rest) \<Rightarrow>
        (case new_SemVer (dropWhile is_space rest) of
           None \<Rightarrow> None
         | Some sv \<Rightarrow>
             if operator = ''^'' then Some (caret_range sv)
             else if operator = ''~'' then Some (tilde_range sv)
             else if operator = ''>='' then Some [(OpGe, sv)]
             else if operator = ''<='' then Some [(OpLe, sv)]
             else if operator = ''>'' then Some [(OpGt, sv)]
             else if operator = ''<'' then Some [(OpLt, sv)]
             else Some [(OpEq, sv)]))"

text \<open>A ver with a pre-release satisfies a comparator set only if some comparator has a
  pre-release on the same \<open>[major, minor, patch]\<close>.\<close>

definition testSet :: "Comparator list \<Rightarrow> SemVer \<Rightarrow> bool" where
  "testSet comps v =
     (list_all (\<lambda>comparator. comparator_test comparator v) comps
      \<and> (prerelease v = []
         \<or> list_ex (\<lambda>(operator, sv). prerelease sv \<noteq> [] \<and> major sv = major v
                                    \<and> minor sv = minor v \<and> patch sv = patch v) comps))"

definition satisfies :: "string \<Rightarrow> string \<Rightarrow> bool" where
  "satisfies ver rng =
     (case parse_range rng of
        None \<Rightarrow> False
      | Some comps \<Rightarrow>
          (case new_SemVer ver of
             None \<Rightarrow> False
           | Some v \<Rightarrow> testSet comps v))"

definition node_semver :: semver_lib where
  "node_semver =
     \<lparr> semver_clean = clean, semver_satisfies = satisfies, semver_major = major_of,
       semver_lt = lt \<rparr>"

section \<open>VersionManager.checkCompatibility (utils/version)\<close>

record VersionCompatibility =
  compatible :: bool
  reason :: "string option"
  suggestedVersion :: "string option"

definition is_compatible :: VersionCompatibility where
  "is_compatible = \<lparr> compatible = True, reason = None, suggestedVersion = None \<rparr>"

definition invalid_format :: VersionCompatibility where
  "invalid_format =
     \<lparr> compatible = False, reason = Some ''Invalid version format'', suggestedVersion = None \<rparr>"

definition major_mismatch :: "nat \<Rightarrow> nat \<Rightarrow> VersionCompatibility" where
  "major_mismatch requiredMajor providedMajor =
     \<lparr> compatible = False,
       reason = Some (''Major version mismatch: required v'' @ show_nat requiredMajor
                      @ '', provided v'' @ show_nat providedMajor),
       suggestedVersion = Some (show_nat requiredMajor @ ''.x.x'') \<rparr>"

definition too_old :: "string \<Rightarrow> string \<Rightarrow> VersionCompatibility" where
  "too_old requiredVersion providedVersion =
     \<lparr> compatible = False,
       reason = Some (''Version too old: required '' @ requiredVersion
                      @ '', provided '' @ providedVersion),
       suggestedVersion = Some requiredVersion \<rparr>"

definition check_error :: VersionCompatibility where
  "check_error =
     \<lparr> compatible = False, reason = Some ''Error checking version compatibility'',
       suggestedVersion = None \<rparr>"

text \<open>The body of the \<open>try\<close> block: \<open>Inl\<close> is an exception of a \<open>semver\<close> call.\<close>

definition checkCompatibility_try :: "semver_lib \<Rightarrow> string \<Rightarrow> string
    \<Rightarrow> js_error + VersionCompatibility" where
  "checkCompatibility_try L requiredVersion providedVersion =
     (case semver_clean L requiredVersion of
        None \<Rightarrow> Inr invalid_format
      | Some cleanRequired \<Rightarrow>
          (case semver_clean L providedVersion of
             None \<Rightarrow> Inr invalid_format
           | Some cleanProvided \<Rightarrow>
               if semver_satisfies L cleanProvided requiredVersion then Inr is_compatible
               else
                 (case semver_major L cleanRequired of
                    Inl e \<Rightarrow> Inl e
                  | Inr requiredMajor \<Rightarrow>
                      (case semver_major L cleanProvided of
                         Inl e \<Rightarrow> Inl e
                       | Inr providedMajor \<Rightarrow>
                           if requiredMajor \<noteq> providedMajor
                           then Inr (major_mismatch requiredMajor providedMajor)
                           else
                             (case semver_lt L cleanProvided cleanRequired of
                                Inl e \<Rightarrow> Inl e
                              | Inr older \<Rightarrow>
                                  if older then Inr (too_old requiredVersion providedVersion)
                                  else Inr is_compatible)))))"

definition checkCompatibility :: "semver_lib \<Rightarrow> string \<Rightarrow> string \<Rightarrow> VersionCompatibility" where
  "checkCompatibility L requiredVersion providedVersion =
     (case checkCompatibility_try L requiredVersion providedVersion of
        Inl error \<Rightarrow> check_error
      | Inr result \<Rightarrow> result)"

section \<open>The schema (validator/schema)\<close>

text \<open>
  \<open>zod\<close> is an external package. Its parsers are modelled as functions from a path and a
  value to the list of issues they report, in the order zod reports them: an object parser
  visits the keys of its shape in declaration order and reports every failing key, a strict
  object then reports the keys outside its shape, and a string or number parser runs every
  check. The texts of zod's default messages and its tests for e-mail addresses and ISO
  date-times are parameters (\<open>zod_lib\<close>).
\<close>

datatype zod_issue_code =
    invalid_type string string
  | invalid_string string
  | too_small rat bool
  | too_big rat bool
  | invalid_enum_value "string list" string
  | unrecognized_keys "string list"

record zod_issue =
  issue_code :: zod_issue_code
  issue_path :: "string list"
  issue_message :: string

record zod_lib =
  defaultErrorMap :: "zod_issue_code \<Rightarrow> string"
  isEmail :: "string \<Rightarrow> bool"
  isDatetime :: "string \<Rightarrow> bool"

type_synonym zod_schema = "string list \<Rightarrow> json \<Rightarrow> zod_issue list"

fun parsedType :: "json \<Rightarrow> string" where
  "parsedType JUndefined = ''undefined''"
| "parsedType JNull = ''null''"
| "parsedType (JBool b) = ''boolean''"
| "parsedType (JNum n) = ''number''"
| "parsedType (JStr s) = ''string''"
| "parsedType (JArr xs) = ''array''"
| "parsedType (JObj kvs) = ''object''"

definition issue :: "zod_lib \<Rightarrow> zod_issue_code \<Rightarrow> string list \<Rightarrow> zod_issue" where
  "issue Z c p = \<lparr> issue_code = c, issue_path = p, issue_message = defaultErrorMap Z c \<rparr>"

definition issue_with :: "string \<Rightarrow> zod_issue_code \<Rightarrow> string list \<Rightarrow> zod_issue" where
  "issue_with msg c p = \<lparr> issue_code = c, issue_path = p, issue_message = msg \<rparr>"

text \<open>\<open>obj[key]\<close> on an object: \<open>undefined\<close> for a missing key.\<close>

definition get_key :: "(string \<times> json) list \<Rightarrow> string \<Rightarrow> json" where
  "get_key kvs k = (case map_of kvs k of None \<Rightarrow> JUndefined | Some v \<Rightarrow> v)"

definition z_optional :: "zod_schema \<Rightarrow> zod_schema" where
  "z_optional schema p v = (if v = JUndefined then [] else schema p v)"

text \<open>\<open>z.string()\<close> with checks that depend on the text only.\<close>

definition z_string :: "zod_lib \<Rightarrow> (string \<Rightarrow> string list \<Rightarrow> zod_issue list) \<Rightarrow> zod_schema" where
  "z_string Z checks p v =
     (case v of
        JStr s \<Rightarrow> checks s p
      | _ \<Rightarrow> [issue Z (invalid_type ''string'' (parsedType v)) p])"

definition no_checks :: "'a \<Rightarrow> string list \<Rightarrow> zod_issue list" where
  "no_checks x p = []"

definition z_number :: "zod_lib \<Rightarrow> (rat \<Rightarrow> string list \<Rightarrow> zod_issue list) \<Rightarrow> zod_schema" where
  "z_number Z checks p v =
     (case v of
        JNum n \<Rightarrow> checks n p
      | _ \<Rightarrow> [issue Z (invalid_type ''number'' (parsedType v)) p])"

definition z_boolean :: "zod_lib \<Rightarrow> zod_schema" where
  "z_boolean Z p v =
     (case v of
        JBool b \<Rightarrow> []
      | _ \<Rightarrow> [issue Z (invalid_type ''boolean'' (parsedType v)) p])"

definition quoted :: "string \<Rightarrow> string" where
  "quoted s = [CHR 0x27] @ s @ [CHR 0x27]"

definition z_enum :: "zod_lib \<Rightarrow> string list \<Rightarrow> zod_schema" where
  "z_enum Z options p v =
     (case v of
        JStr s \<Rightarrow> if s \<in> set options then [] else [issue Z (invalid_enum_value options s) p]
      | _ \<Rightarrow> [issue Z (invalid_type (join '' | '' (map quoted options)) (parsedType v)) p])"

definition z_array :: "zod_lib \<Rightarrow> zod_schema \<Rightarrow> zod_schema" where
  "z_array Z element p v =
     (case v of
        JArr xs \<Rightarrow> concat (map (\<lambda>(i, x). element (p @ [show_nat i]) x) (enumerate 0 xs))
      | _ \<Rightarrow> [issue Z (invalid_type ''array'' (parsedType v)) p])"

datatype unknown_keys = Strip | Strict | Catchall_any

definition z_object :: "zod_lib \<Rightarrow> (string \<times> zod_schema) list \<Rightarrow> unknown_keys \<Rightarrow> zod_schema" where
  "z_object Z shape unknownKeys p v =
     (case v of
        JObj kvs \<Rightarrow>
          concat (map (\<lambda>(key, keyValidator). keyValidator (p @ [key]) (get_key kvs key)) shape)
          @ (let extraKeys = filter (\<lambda>key. key \<notin> set (map fst shape)) (map fst kvs)
             in if unknownKeys = Strict \<and> extraKeys \<noteq> []
                then [issue Z (unrecognized_keys extraKeys) p] else [])
      | _ \<Rightarrow> [issue Z (invalid_type ''object'' (parsedType v)) p])"

text \<open>The checks of the schema file.\<close>

definition min_length_1 :: "string \<Rightarrow> string \<Rightarrow> string list \<Rightarrow> zod_issue list" where
  "min_length_1 msg s p = (if length s < 1 then [issue_with msg (too_small 1 True) p] else [])"

definition SemverSchema :: "zod_lib \<Rightarrow> zod_schema" where
  "SemverSchema Z =
     z_string Z (\<lambda>s p. if semverRegex s then []
                       else [issue_with
                               ''Version must be valid semantic versioning (e.g., 1.0.0, 2.1.0-beta)''
                               (invalid_string ''regex'') p])"

definition ISO8601Schema :: "zod_lib \<Rightarrow> zod_schema" where
  "ISO8601Schema Z =
     z_string Z (\<lambda>s p. if isDatetime Z s then []
                       else [issue_with ''Date must be in ISO 8601 format''
                               (invalid_string ''datetime'') p])"

definition email_schema :: "zod_lib \<Rightarrow> zod_schema" where
  "email_schema Z =
     z_string Z (\<lambda>s p. if isEmail Z s then [] else [issue Z (invalid_string ''email'') p])"

definition int_check :: "zod_lib \<Rightarrow> rat \<Rightarrow> string list \<Rightarrow> zod_issue list" where
  "int_check Z n p =
     (if n = of_int \<lfloor>n\<rfloor> then [] else [issue Z (invalid_type ''integer'' ''float'') p])"

definition positive_check :: "zod_lib \<Rightarrow> rat \<Rightarrow> string list \<Rightarrow> zod_issue list" where
  "positive_check Z n p = (if 0 < n then [] else [issue Z (too_small 0 False) p])"

definition min_check :: "zod_lib \<Rightarrow> rat \<Rightarrow> rat \<Rightarrow> string list \<Rightarrow> zod_issue list" where
  "min_check Z lo n p = (if lo \<le> n then [] else [issue Z (too_small lo True) p])"

definition max_check :: "zod_lib \<Rightarrow> rat \<Rightarrow> rat \<Rightarrow> string list \<Rightarrow> zod_issue list" where
  "max_check Z hi n p = (if n \<le> hi then [] else [issue Z (too_big hi True) p])"

definition positive_int :: "zod_lib \<Rightarrow> zod_schema" where
  "positive_int Z = z_number Z (\<lambda>n p. int_check Z n p @ positive_check Z n p)"

definition number_between :: "zod_lib \<Rightarrow> rat \<Rightarrow> rat \<Rightarrow> zod_schema" where
  "number_between Z lo hi = z_number Z (\<lambda>n p. min_check Z lo n p @ max_check Z hi n p)"

definition opt_string :: "zod_lib \<Rightarrow> zod_schema" where
  "opt_string Z = z_optional (z_string Z no_checks)"

definition opt_strings :: "zod_lib \<Rightarrow> zod_schema" where
  "opt_strings Z = z_optional (z_array Z (z_string Z no_checks))"

definition ModelRequirementsSchema :: "zod_lib \<Rightarrow> zod_schema" where
  "ModelRequirementsSchema Z =
     z_object Z
       [(''min_context'', z_optional (positive_int Z)),
        (''max_tokens'', z_optional (positive_int Z)),
        (''preferred_models'', opt_strings Z),
        (''temperature'', z_optional (number_between Z 0 2))]
       Strict"

definition ParametersSchema :: "zod_lib \<Rightarrow> zod_schema" where
  "ParametersSchema Z =
     z_object Z
       [(''max_iterations'', z_optional (positive_int Z)),
        (''confidence_threshold'', z_optional (number_between Z 0 1))]
       Catchall_any"

definition AgentMetadataShape :: "zod_lib \<Rightarrow> (string \<times> zod_schema) list" where
  "AgentMetadataShape Z =
     [(''name'', z_string Z (min_length_1 ''Agent name is required'')),
      (''version'', z_optional (SemverSchema Z)),
      (''description'', opt_string Z),
      (''role'', opt_string Z),
      (''specialization'', opt_string Z),
      (''capabilities'', opt_strings Z),
      (''coding_languages'', opt_strings Z),
      (''frameworks'', opt_strings Z),
      (''tools'', opt_strings Z),
      (''technologies'', opt_strings Z),
      (''industries'', opt_strings Z),
      (''skills'', opt_strings Z),
      (''domains'', opt_strings Z),
      (''languages'', opt_strings Z),
      (''model_requirements'', z_optional (ModelRequirementsSchema Z)),
      (''parameters'', z_optional (ParametersSchema Z)),
      (''author'', opt_string Z),
      (''organization'', opt_string Z),
      (''email'', z_optional (email_schema Z)),
      (''license'', opt_string Z),
      (''created'', z_optional (ISO8601Schema Z)),
      (''updated'', z_optional (ISO8601Schema Z)),
      (''maintainers'', opt_strings Z),
      (''tags'', opt_strings Z),
      (''keywords'', opt_strings Z),
      (''category'', opt_string Z),
      (''subcategory'', opt_string Z),
      (''use_cases'', opt_strings Z),
      (''difficulty'', z_optional (z_enum Z [''beginner'', ''intermediate'', ''advanced''])),
      (''dependencies'', opt_strings Z),
      (''integrations'', opt_strings Z),
      (''apis'', opt_strings Z),
      (''requires_internet'', z_optional (z_boolean Z))]"

definition AgentMetadataSchema :: "zod_lib \<Rightarrow> zod_schema" where
  "AgentMetadataSchema Z = z_object Z (AgentMetadataShape Z) Strip"

definition AgentFrontmatterSchema :: "zod_lib \<Rightarrow> zod_schema" where
  "AgentFrontmatterSchema Z = z_object Z [(''agent'', AgentMetadataSchema Z)] Strip"

text \<open>\<open>schema.safeParse(v)\<close>: the issues, empty on success.\<close>

definition safeParse :: "zod_schema \<Rightarrow> json \<Rightarrow> zod_issue list" where
  "safeParse schema v = schema [] v"

section \<open>AgentParser.validate (parser/index)\<close>

record AgentFile =
  metadata :: json
  content :: string
  rawContent :: string
  filePath :: "string option"

record ValidationError =
  error_field :: string
  error_message :: string
  error_value :: json

record ValidationWarning =
  warning_field :: string
  warning_message :: string
  suggestion :: string

record ValidationResult =
  valid :: bool
  errors :: "ValidationError list"
  warnings :: "ValidationWarning list"

text \<open>Truthiness of a value, and reading a property: reading from \<open>undefined\<close> or \<open>null\<close>
  throws a \<open>TypeError\<close>; an object gives the value of the key; an array or a string has a
  \<open>length\<close>; the property names read by \<open>validate\<close> are undefined on every other value.\<close>

fun truthy :: "json \<Rightarrow> bool" where
  "truthy JUndefined = False"
| "truthy JNull = False"
| "truthy (JBool b) = b"
| "truthy (JNum n) = (n \<noteq> 0)"
| "truthy (JStr s) = (s \<noteq> [])"
| "truthy (JArr xs) = True"
| "truthy (JObj kvs) = True"

definition cannot_read :: "json \<Rightarrow> string \<Rightarrow> js_error" where
  "cannot_read v prop =
     TypeError (''Cannot read properties of '' @ parsedType v @ '' (reading '' @ [CHR 0x27] @ prop
                @ [CHR 0x27] @ '')'')"

fun get_prop :: "json \<Rightarrow> string \<Rightarrow> js_error + json" where
  "get_prop JUndefined prop = Inl (cannot_read JUndefined prop)"
| "get_prop JNull prop = Inl (cannot_read JNull prop)"
| "get_prop (JObj kvs) prop = Inr (get_key kvs prop)"
| "get_prop (JArr xs) prop =
     Inr (if prop = ''length'' then JNum (of_nat (length xs)) else JUndefined)"
| "get_prop (JStr s) prop =
     Inr (if prop = ''length'' then JNum (of_nat (length s)) else JUndefined)"
| "get_prop (JBool b) prop = Inr JUndefined"
| "get_prop (JNum n) prop = Inr JUndefined"

definition error_text :: "js_error \<Rightarrow> string" where
  "error_text e = (case e of TypeError msg \<Rightarrow> msg)"

text \<open>\<open>err.path.slice(1).join('.')\<close>.\<close>

definition zod_error :: "zod_issue \<Rightarrow> ValidationError" where
  "zod_error err =
     \<lparr> error_field = join ''.'' (drop 1 (issue_path err)),
       error_message = issue_message err,
       error_value = JUndefined \<rparr>"

definition version_warning :: ValidationWarning where
  "version_warning =
     \<lparr> warning_field = ''version'',
       warning_message = ''Version field is strongly recommended for collaboration'',
       suggestion = ''Add version: \"1.0.0\" to track changes'' \<rparr>"

definition description_warning :: ValidationWarning where
  "description_warning =
     \<lparr> warning_field = ''description'',
       warning_message = ''Description helps users understand the agent purpose'',
       suggestion = ''Add a brief description of what this agent does'' \<rparr>"

definition author_warning :: ValidationWarning where
  "author_warning =
     \<lparr> warning_field = ''author'',
       warning_message = ''Author or organization helps with attribution'',
       suggestion = ''Add author name or organization'' \<rparr>"

definition capabilities_warning :: ValidationWarning where
  "capabilities_warning =
     \<lparr> warning_field = ''capabilities'',
       warning_message = ''Empty capabilities array provides no value'',
       suggestion = ''Add specific capabilities or remove the field'' \<rparr>"

text \<open>The \<open>catch\<close> block, entered with the errors and warnings pushed so far.\<close>

definition caught :: "ValidationError list \<Rightarrow> ValidationWarning list \<Rightarrow> js_error
    \<Rightarrow> ValidationResult" where
  "caught errs warns e =
     \<lparr> valid = False,
       errors = errs @ [\<lparr> error_field = ''agent'', error_message = error_text e,
                          error_value = JUndefined \<rparr>],
       warnings = warns \<rparr>"

definition validate :: "zod_lib \<Rightarrow> AgentFile \<Rightarrow> ValidationResult" where
  "validate Z agentFile =
     (let m = metadata agentFile;
          errors0 = map zod_error (safeParse (AgentFrontmatterSchema Z) (JObj [(''agent'', m)]))
      in case get_prop m ''version'' of
           Inl e \<Rightarrow> caught errors0 [] e
         | Inr ver \<Rightarrow>
       (let warnings1 = (if \<not> truthy ver then [version_warning] else [])
        in case get_prop m ''description'' of
             Inl e \<Rightarrow> caught errors0 warnings1 e
           | Inr descr \<Rightarrow>
       (let warnings2 = warnings1 @ (if \<not> truthy descr then [description_warning] else [])
        in case get_prop m ''author'' of
             Inl e \<Rightarrow> caught errors0 warnings2 e
           | Inr auth \<Rightarrow>
       (case (if truthy auth then Inr auth else get_prop m ''organization'') of
             Inl e \<Rightarrow> caught errors0 warnings2 e
           | Inr auth_or_org \<Rightarrow>
       (let warnings3 = warnings2 @ (if \<not> truthy auth_or_org then [author_warning] else [])
        in case get_prop m ''capabilities'' of
             Inl e \<Rightarrow> caught errors0 warnings3 e
           | Inr caps \<Rightarrow>
       (case (if truthy caps then get_prop caps ''length'' else Inr JUndefined) of
             Inl e \<Rightarrow> caught errors0 warnings3 e
           | Inr len \<Rightarrow>
       (let warnings4 = warnings3 @ (if truthy caps \<and> len = JNum 0
                                     then [capabilities_warning] else [])
        in \<lparr> valid = (length errors0 = 0), errors = errors0, warnings = warnings4 \<rparr>)))))))"

text \<open>A stand-in for the zod parameters, for the examples.\<close>

definition example_zod :: zod_lib where
  "example_zod =
     \<lparr> defaultErrorMap = (\<lambda>c. case c of
                              invalid_type expected received \<Rightarrow>
                                if received = ''undefined'' then ''Required''
                                else ''Expected '' @ expected @ '', received '' @ received
                            | _ \<Rightarrow> ''Invalid input''),
       isEmail = (\<lambda>s. CHR ''@'' \<in> set s),
       isDatetime = (\<lambda>s. CHR ''T'' \<in> set s) \<rparr>"

definition agent_file :: "json \<Rightarrow> AgentFile" where
  "agent_file m = \<lparr> metadata = m, content = [], rawContent = [], filePath = None \<rparr>"

section \<open>VersionManager.checkModelCompatibility (utils/version)\<close>

text \<open>
  The function has no \<open>try\<close> block and is called with whatever metadata the parser returned,
  so the agent is a \<^typ>\<open>json\<close> value and every \<open>TypeError\<close> the body can raise is a result
  \<open>Inl\<close>. The conversions \<open>String(v)\<close> (a template literal) and \<open>ToNumber(v)\<close> (a comparison
  with a value that is not a number; \<open>None\<close> is \<open>NaN\<close>) are built into the language and are
  parameters. The context size is a number other than \<open>NaN\<close>.
\<close>

record js_coercions =
  js_String :: "json \<Rightarrow> string"
  js_ToNumber :: "json \<Rightarrow> rat option"

record ModelCompatibility =
  model_compatible :: bool
  issues :: "string list"

definition not_a_function :: "string \<Rightarrow> js_error" where
  "not_a_function expr = TypeError (expr @ '' is not a function'')"

text \<open>\<open>v?.prop\<close>: \<open>undefined\<close> where reading the property would throw.\<close>

definition optional_chain :: "json \<Rightarrow> string \<Rightarrow> json" where
  "optional_chain v prop = (case get_prop v prop of Inl e \<Rightarrow> JUndefined | Inr x \<Rightarrow> x)"

text \<open>\<open>models.some(model => availableModel.toLowerCase().includes(model.toLowerCase()))\<close>:
  the entries are visited in order up to the first match; an entry that is not a string has
  no \<open>toLowerCase\<close>.\<close>

fun some_includes :: "string \<Rightarrow> json list \<Rightarrow> js_error + bool" where
  "some_includes availableModel [] = Inr False"
| "some_includes availableModel (model # rest) =
     (case model of
        JStr s \<Rightarrow>
          if str_includes (toLowerCase availableModel) (toLowerCase s) then Inr True
          else some_includes availableModel rest
      | JUndefined \<Rightarrow> Inl (cannot_read JUndefined ''toLowerCase'')
      | JNull \<Rightarrow> Inl (cannot_read JNull ''toLowerCase'')
      | _ \<Rightarrow> Inl (not_a_function ''model.toLowerCase''))"

text \<open>\<open>xs.join(sep)\<close> on an array of values: \<open>undefined\<close> and \<open>null\<close> give the empty text.\<close>

definition array_join :: "js_coercions \<Rightarrow> string \<Rightarrow> json list \<Rightarrow> string" where
  "array_join J sep xs =
     join sep (map (\<lambda>x. case x of
                          JStr s \<Rightarrow> s
                        | JUndefined \<Rightarrow> []
                        | JNull \<Rightarrow> []
                        | _ \<Rightarrow> js_String J x) xs)"

definition preferred_issue :: "js_coercions \<Rightarrow> string \<Rightarrow> json list \<Rightarrow> string" where
  "preferred_issue J availableModel models =
     ''Model '' @ availableModel @ '' is not in preferred models: '' @ array_join J '', '' models"

definition context_issue :: "js_coercions \<Rightarrow> json \<Rightarrow> rat \<Rightarrow> string" where
  "context_issue J required availableContext =
     ''Insufficient context: requires '' @ js_String J required
       @ '', available '' @ js_String J (JNum availableContext)"

text \<open>\<open>a < v\<close> for a number \<open>a\<close>.\<close>

definition less_than :: "js_coercions \<Rightarrow> rat \<Rightarrow> json \<Rightarrow> bool" where
  "less_than J a v =
     (case v of
        JNum n \<Rightarrow> a < n
      | _ \<Rightarrow> (case js_ToNumber J v of None \<Rightarrow> False | Some n \<Rightarrow> a < n))"

definition checkModelCompatibility :: "js_coercions \<Rightarrow> json \<Rightarrow> string \<Rightarrow> rat
    \<Rightarrow> js_error + ModelCompatibility" where
  "checkModelCompatibility J agent availableModel availableContext =
     (case get_prop agent ''model_requirements'' of
        Inl e \<Rightarrow> Inl e
      | Inr req \<Rightarrow>
     (let preferred = optional_chain req ''preferred_models''
      in case (if truthy preferred
               then (case preferred of
                       JArr models \<Rightarrow>
                         (case some_includes availableModel models of
                            Inl e \<Rightarrow> Inl e
                          | Inr isPreferred \<Rightarrow>
                              Inr (if \<not> isPreferred
                                   then [preferred_issue J availableModel models] else []))
                     | _ \<Rightarrow> Inl (not_a_function
                                    ''agent.model_requirements.preferred_models.some''))
               else Inr []) of
           Inl e \<Rightarrow> Inl e
         | Inr issues1 \<Rightarrow>
     (let required = optional_chain req ''min_context'';
          issues2 = (if truthy required
                     then (if less_than J availableContext required
                           then issues1 @ [context_issue J required availableContext]
                           else issues1)
                     else issues1)
      in Inr \<lparr> model_compatible = (length issues2 = 0), issues = issues2 \<rparr>)))"

text \<open>The condition of the specification: some entry of a list is a case-insensitive
  substring of the model name.\<close>

definition some_entry_matches :: "string list \<Rightarrow> string \<Rightarrow> bool" where
  "some_entry_matches models availableModel =
     (\<exists>model \<in> set models. str_includes (toLowerCase availableModel) (toLowerCase model))"

text \<open>A stand-in for the conversions, for the examples: integers in decimal.\<close>

definition show_int :: "int \<Rightarrow> string" where
  "show_int i = (if i < 0 then ''-'' @ show_nat (nat (- i)) else show_nat (nat i))"

definition example_js :: js_coercions where
  "example_js =
     \<lparr> js_String = (\<lambda>v. case v of JNum n \<Rightarrow> show_int \<lfloor>n\<rfloor> | JStr s \<Rightarrow> s | _ \<Rightarrow> []),
       js_ToNumber = (\<lambda>v. None) \<rparr>"

definition agent_requiring :: "(string \<times> json) list \<Rightarrow> (string \<times> json) list" where
  "agent_requiring req = [(''name'', JStr ''agent''), (''model_requirements'', JObj req)]"

text \<open>Example states: an index with two documents, an engine where the id \<open>a\<close> is added
  twice with different metadata, and an engine with 25 agents.\<close>

definition example_index :: SearchIndex where
  "example_index =
     addDocument ''b'' (agent_named ''beta'')
       (addDocument ''a'' (agent_named ''Alpha  alphabet'') new_SearchIndex)"

definition readded_engine :: AgentSearchEngine where
  "readded_engine =
     addAgent ''a'' (agent_named ''beta'')
       (addAgent ''a'' (agent_named ''alpha'') new_AgentSearchEngine)"

definition numbered_engine :: "nat \<Rightarrow> AgentSearchEngine" where
  "numbered_engine n =
     foldl (\<lambda>E i. addAgent (show_nat i) (agent_named (''agent'' @ show_nat i)) E)
       new_AgentSearchEngine [0..<n]"

definition no_options :: SearchOptions where
  "no_options = \<lparr> query = None, filters = None, sort_option = None, limit = None, offset = None \<rparr>"

definition no_filters :: SearchFilters where
  "no_filters =
     \<lparr> filter_capabilities = None, filter_coding_languages = None, filter_frameworks = None,
       filter_industries = None, filter_tags = None, filter_category = None,
       filter_difficulty = None, filter_author = None, filter_organization = None,
       filter_requires_internet = None \<rparr>"

definition categorised_engine :: AgentSearchEngine where
  "categorised_engine =
     addAgent ''3'' ((agent_named ''third'')\<lparr>category := Some ''c1''\<rparr>)
       (addAgent ''2'' ((agent_named ''second'')\<lparr>category := Some ''c2''\<rparr>)
          (addAgent ''1'' ((agent_named ''first'')\<lparr>category := Some ''c1''\<rparr>)
             new_AgentSearchEngine))"

definition category_c1_page2 :: SearchOptions where
  "category_c1_page2 =
     \<lparr> query = None, filters = Some (no_filters\<lparr>filter_category := Some ''c1''\<rparr>),
       sort_option = None, limit = Some 1, offset = Some 1 \<rparr>"

definition name_only :: "(string \<times> json) list" where
  "name_only = [(''name'', JStr ''helper'')]"

definition name_and_empty_capabilities :: "(string \<times> json) list" where
  "name_and_empty_capabilities = [(''name'', JStr ''helper''), (''capabilities'', JArr [])]"

definition two_violations :: "(string \<times> json) list" where
  "two_violations = [(''name'', JStr []), (''version'', JStr ''1.0'')]"

section \<open>Verification: the search index\<close>

subsection \<open>Substrings\<close>

lemma take_prefix_iff: "take (length t) s = t \<longleftrightarrow> (\<exists>q. s = t @ q)"
  by (metis append_eq_conv_conj append_take_drop_id)

lemma str_includes_iff: "str_includes s t \<longleftrightarrow> (\<exists>p q. s = p @ t @ q)"
proof (induction s)
  case Nil
  then show ?case by auto
next
  case (Cons c s)
  have "(\<exists>p q. c # s = p @ t @ q) \<longleftrightarrow> (\<exists>q. c # s = t @ q) \<or> (\<exists>p q. s = p @ t @ q)"
  proof
    assume "\<exists>p q. c # s = p @ t @ q"
    then obtain p q where e: "c # s = p @ t @ q" by blast
    show "(\<exists>q. c # s = t @ q) \<or> (\<exists>p q. s = p @ t @ q)"
    proof (cases p)
      case Nil
      with e show ?thesis by auto
    next
      case (Cons a p')
      with e have "s = p' @ t @ q" by simp
      then show ?thesis by blast
    qed
  next
    assume "(\<exists>q. c # s = t @ q) \<or> (\<exists>p q. s = p @ t @ q)"
    then show "\<exists>p q. c # s = p @ t @ q"
    proof
      assume "\<exists>q. c # s = t @ q"
      then obtain q where "c # s = [] @ t @ q" by auto
      then show ?thesis by blast
    next
      assume "\<exists>p q. s = p @ t @ q"
      then obtain p q where "c # s = (c # p) @ t @ q" by auto
      then show ?thesis by blast
    qed
  qed
  with Cons.IH show ?case
    by (simp only: str_includes.simps take_prefix_iff)
qed

subsection \<open>The result map while scoring\<close>

lemma score_of_add_score:
  "score_of (add_score n r i) j = score_of r j + (if j = i then n else 0)"
  by (simp add: score_of_def add_score_def update_conv')

lemma dom_add_score: "fst ` set (add_score n r i) = insert i (fst ` set r)"
  by (simp add: add_score_def dom_update)

lemma distinct_add_score: "distinct (map fst r) \<Longrightarrow> distinct (map fst (add_score n r i))"
  by (simp add: add_score_def distinct_update)

lemma score_of_foldl_add_score:
  "score_of (foldl (add_score n) r ids) j = score_of r j + n * count_list ids j"
  by (induction ids arbitrary: r) (simp_all add: score_of_add_score)

lemma dom_foldl_add_score:
  "fst ` set (foldl (add_score n) r ids) = fst ` set r \<union> set ids"
  by (induction ids arbitrary: r) (auto simp: dom_add_score)

lemma distinct_foldl_add_score:
  "distinct (map fst r) \<Longrightarrow> distinct (map fst (foldl (add_score n) r ids))"
  by (induction ids arbitrary: r) (simp_all add: distinct_add_score)

lemma scored_positive_foldl_add_score:
  assumes "scored_positive r" "0 < n"
  shows "scored_positive (foldl (add_score n) r ids)"
  using assms unfolding scored_positive_def
  by (auto simp: dom_foldl_add_score score_of_foldl_add_score distinct_foldl_add_score
        count_list_0_iff)

lemma score_of_partial:
  "score_of (foldl (\<lambda>r (indexToken, ids).
                      if str_includes indexToken token then foldl (add_score 1) r ids else r) r ix) j
   = score_of r j
     + sum_list (map (\<lambda>(indexToken, ids).
                        if str_includes indexToken token then count_list ids j else 0) ix)"
  by (induction ix arbitrary: r) (auto simp: score_of_foldl_add_score)

lemma scored_positive_partial:
  "scored_positive r \<Longrightarrow>
   scored_positive (foldl (\<lambda>r (indexToken, ids).
                      if str_includes indexToken token then foldl (add_score 1) r ids else r) r ix)"
  by (induction ix arbitrary: r) (auto simp: scored_positive_foldl_add_score)

lemma score_of_search_token:
  "score_of (search_token ix r token) j
   = score_of r j
     + (case map_of ix token of None \<Rightarrow> 0 | Some ids \<Rightarrow> 2 * count_list ids j)
     + sum_list (map (\<lambda>(indexToken, ids).
                        if str_includes indexToken token then count_list ids j else 0) ix)"
  by (simp add: search_token_def score_of_partial score_of_foldl_add_score split: option.splits)

lemma scored_positive_search_token:
  "scored_positive r \<Longrightarrow> scored_positive (search_token ix r token)"
  by (simp add: search_token_def scored_positive_partial scored_positive_foldl_add_score
        split: option.splits)

lemma count_list_distinct: "distinct xs \<Longrightarrow> count_list xs x = (if x \<in> set xs then 1 else 0)"
  by (induction xs) auto

lemma partial_points_wf:
  "list_all (\<lambda>(token, ids). distinct ids \<and> ids \<noteq> []) ix \<Longrightarrow>
   sum_list (map (\<lambda>(indexToken, ids).
                    if str_includes indexToken token then count_list ids j else 0) ix)
   = substring_points ix token j"
  by (induction ix) (auto simp: substring_points_def count_list_distinct split: if_splits)

lemma exact_points_wf:
  "list_all (\<lambda>(token, ids). distinct ids \<and> ids \<noteq> []) ix \<Longrightarrow>
   (case map_of ix token of None \<Rightarrow> 0 | Some ids \<Rightarrow> 2 * count_list ids j)
   = exact_points ix token j"
  by (auto simp: exact_points_def list_all_iff count_list_distinct split: option.splits
        dest!: map_of_SomeD)

lemma score_of_tokens:
  "list_all (\<lambda>(token, ids). distinct ids \<and> ids \<noteq> []) ix \<Longrightarrow>
   score_of (foldl (search_token ix) r tokens) j
   = score_of r j
     + sum_list (map (\<lambda>token. exact_points ix token j + substring_points ix token j) tokens)"
  by (induction tokens arbitrary: r)
     (simp_all add: score_of_search_token partial_points_wf exact_points_wf)

lemma scored_positive_tokens:
  "scored_positive r \<Longrightarrow> scored_positive (foldl (search_token ix) r tokens)"
  by (induction tokens arbitrary: r) (simp_all add: scored_positive_search_token)

lemma score_of_search_scores:
  assumes "index_wf S"
  shows "score_of (search_scores S q) d = spec_score S q d"
proof -
  from assms have "list_all (\<lambda>(token, ids). distinct ids \<and> ids \<noteq> []) (index S)"
    by (simp add: index_wf_def postings_wf_def)
  from score_of_tokens[OF this, of "[]" _ d] show ?thesis
    by (simp add: search_scores_def spec_score_def) (simp add: score_of_def)
qed

lemma scored_positive_Nil: "scored_positive []"
  by (simp add: scored_positive_def score_of_def)

lemma scored_positive_search_scores: "scored_positive (search_scores S q)"
  unfolding search_scores_def by (rule scored_positive_tokens[OF scored_positive_Nil])

lemma map_of_score: "distinct (map fst r) \<Longrightarrow> (d, s) \<in> set r \<Longrightarrow> score_of r d = s"
  by (simp add: score_of_def)

subsection \<open>The index invariant holds in every reachable state\<close>

lemma list_all_update:
  "P (k, v) \<Longrightarrow> list_all P al \<Longrightarrow> list_all P (AList.update k v al)"
  by (induction al) auto

lemma distinct_set_add: "distinct s \<Longrightarrow> distinct (set_add x s)"
  by (simp add: set_add_def)

lemma set_add_nonempty: "set_add x s \<noteq> []"
  by (auto simp: set_add_def)

lemma postings_wf_index_token:
  assumes "postings_wf ix"
  shows "postings_wf (index_token d ix token)"
proof (cases "map_of ix token")
  case None
  with assms show ?thesis
    by (simp add: postings_wf_def index_token_def Let_def distinct_update list_all_update
          update_conv' or_empty_def set_add_def)
next
  case (Some ids)
  then have "(token, ids) \<in> set ix" by (rule map_of_SomeD)
  with assms have "distinct ids" by (auto simp: postings_wf_def list_all_iff)
  with assms Some show ?thesis
    by (simp add: postings_wf_def index_token_def Let_def distinct_update list_all_update
          or_empty_def distinct_set_add set_add_nonempty)
qed

lemma postings_wf_foldl: "postings_wf ix \<Longrightarrow> postings_wf (foldl (index_token d) ix tokens)"
  by (induction tokens arbitrary: ix) (simp_all add: postings_wf_index_token)

lemma keys_remove_subset:
  "fst ` set (filter (\<lambda>(token, ids). ids \<noteq> [])
                (map (\<lambda>(token, ids). (token, set_delete d ids)) ix))
   \<subseteq> fst ` set ix"
  by force

lemma postings_wf_remove:
  "postings_wf ix \<Longrightarrow>
   postings_wf (filter (\<lambda>(token, ids). ids \<noteq> [])
                  (map (\<lambda>(token, ids). (token, set_delete d ids)) ix))"
proof (induction ix)
  case Nil
  then show ?case by (simp add: postings_wf_def)
next
  case (Cons e ix)
  obtain token ids where e: "e = (token, ids)" by (cases e)
  from Cons.prems have "postings_wf ix" and new: "token \<notin> fst ` set ix" and "distinct ids"
    by (auto simp: postings_wf_def e)
  with Cons.IH keys_remove_subset[of d ix] show ?case
    by (auto simp: postings_wf_def e set_delete_def distinct_removeAll)
qed

lemma index_wf_new: "index_wf new_SearchIndex"
  by (simp add: index_wf_def postings_wf_def new_SearchIndex_def)

lemma index_wf_addDocument: "index_wf S \<Longrightarrow> index_wf (addDocument d m S)"
  by (simp add: index_wf_def addDocument_def postings_wf_foldl)

lemma index_wf_removeDocument: "index_wf S \<Longrightarrow> index_wf (removeDocument d S)"
  by (simp add: index_wf_def removeDocument_def postings_wf_remove)

lemma index_wf_addAgent: "index_wf (searchIndex E) \<Longrightarrow> index_wf (searchIndex (addAgent d m E))"
  by (simp add: addAgent_def index_wf_addDocument)

lemma index_wf_removeAgent: "index_wf (searchIndex E) \<Longrightarrow> index_wf (searchIndex (removeAgent d E))"
  by (simp add: removeAgent_def index_wf_removeDocument)

subsection \<open>Ranking\<close>

text \<open>
  Claim C3. In every well-formed index state and for every query string, \<open>search\<close> tokenizes
  the query by lowercasing and splitting on white space; a document's score is, summed over
  the query tokens, 2 for an exact index-token match plus 1 for each distinct index token that
  contains the query token (so an exact match also earns the substring point). The result
  lists each document with a positive score exactly once, ordered by descending score, and
  the score map holds exactly these scores.
\<close>

theorem search_ranking:
  assumes "index_wf S"
  shows "distinct (SearchIndex_search S q)
       \<and> set (SearchIndex_search S q) = {d. 0 < spec_score S q d}
       \<and> sorted_wrt (\<lambda>a b. spec_score S q b \<le> spec_score S q a) (SearchIndex_search S q)
       \<and> map_of (search_scores S q) d
           = (if 0 < spec_score S q d then Some (spec_score S q d) else None)"
proof -
  let ?r = "search_scores S q"
  let ?key = "\<lambda>(d, score). - int score"
  have sp: "scored_positive ?r" by (rule scored_positive_search_scores)
  then have dist: "distinct (map fst ?r)" and dom: "fst ` set ?r = {d. 0 < score_of ?r d}"
    by (simp_all add: scored_positive_def)
  have sc: "\<And>d. score_of ?r d = spec_score S q d"
    using assms by (rule score_of_search_scores)
  have key: "\<And>e. e \<in> set ?r \<Longrightarrow> ?key e = - int (spec_score S q (fst e))"
  proof -
    fix e assume "e \<in> set ?r"
    then have "(fst e, snd e) \<in> set ?r" by simp
    from map_of_score[OF dist this] sc[of "fst e"]
    show "?key e = - int (spec_score S q (fst e))"
      by (simp add: case_prod_beta)
  qed
  have 1: "distinct (SearchIndex_search S q)"
    unfolding SearchIndex_search_def using dist by (simp add: distinct_map)
  have 2: "set (SearchIndex_search S q) = {d. 0 < spec_score S q d}"
    unfolding SearchIndex_search_def using dom sc by simp
  have "sorted (map ?key (sort_key ?key ?r))" by (rule sorted_sort_key)
  then have "sorted_wrt (\<lambda>a b. ?key a \<le> ?key b) (sort_key ?key ?r)"
    by (simp add: sorted_map)
  then have "sorted_wrt (\<lambda>a b. spec_score S q (fst b) \<le> spec_score S q (fst a))
               (sort_key ?key ?r)"
    by (rule sorted_wrt_mono_rel[rotated]) (use key in auto)
  then have 3: "sorted_wrt (\<lambda>a b. spec_score S q b \<le> spec_score S q a)
                  (SearchIndex_search S q)"
    unfolding SearchIndex_search_def by (simp add: sorted_wrt_map)
  have 4: "map_of ?r d = (if 0 < spec_score S q d then Some (spec_score S q d) else None)"
  proof (cases "map_of ?r d")
    case None
    then have "d \<notin> fst ` set ?r" by (simp add: map_of_eq_None_iff)
    with dom sc[of d] None show ?thesis by simp
  next
    case (Some s)
    then have "d \<in> fst ` set ?r" by (metis map_of_eq_None_iff option.distinct(1))
    with dom sc[of d] Some show ?thesis by (simp add: score_of_def)
  qed
  from 1 2 3 4 show ?thesis by blast
qed

lemma example_index_wf: "index_wf example_index"
  by code_simp

lemma example_index_search: "SearchIndex_search example_index ''bet ALPHA '' = [''a'', ''b'']"
  by code_simp

lemma example_index_scores: "search_scores example_index ''bet ALPHA '' = [(''a'', 7), (''b'', 2)]"
  by code_simp

theorem search_ranking_witness:
  "index_wf example_index
   \<and> SearchIndex_search example_index ''bet ALPHA '' = [''a'', ''b'']
   \<and> search_scores example_index ''bet ALPHA '' = [(''a'', 7), (''b'', 2)]
   \<and> distinct (SearchIndex_search example_index ''bet ALPHA '')
   \<and> set (SearchIndex_search example_index ''bet ALPHA '')
       = {d. 0 < spec_score example_index ''bet ALPHA '' d}
   \<and> sorted_wrt (\<lambda>a b. spec_score example_index ''bet ALPHA '' b
                          \<le> spec_score example_index ''bet ALPHA '' a)
        (SearchIndex_search example_index ''bet ALPHA '')
   \<and> map_of (search_scores example_index ''bet ALPHA '') ''a''
       = (if 0 < spec_score example_index ''bet ALPHA '' ''a''
          then Some (spec_score example_index ''bet ALPHA '' ''a'') else None)"
  using search_ranking[OF example_index_wf, of "''bet ALPHA ''" "''a''"]
    example_index_wf example_index_search example_index_scores
  by blast

subsection \<open>Re-adding a document\<close>

lemma posting_kept_index_token:
  "d \<in> set (or_empty (map_of ix t)) \<Longrightarrow> d \<in> set (or_empty (map_of (index_token d' ix token) t))"
  by (auto simp: index_token_def Let_def update_conv' or_empty_def set_add_def
        split: option.splits if_splits)

lemma posting_kept_foldl:
  "d \<in> set (or_empty (map_of ix t)) \<Longrightarrow>
   d \<in> set (or_empty (map_of (foldl (index_token d') ix tokens) t))"
  by (induction tokens arbitrary: ix) (simp_all add: posting_kept_index_token)

text \<open>\<open>addDocument\<close> only ever adds to posting sets: whatever was posted before, for any
  document and any token, is still posted afterwards.\<close>

lemma addDocument_keeps_postings:
  "d \<in> set (or_empty (map_of (index S) t)) \<Longrightarrow>
   d \<in> set (or_empty (map_of (index (addDocument d' m S)) t))"
  by (simp add: addDocument_def posting_kept_foldl)

text \<open>
  Claim C1. After \<open>addAgent("a", m1)\<close> and \<open>addAgent("a", m2)\<close> a search for a token that
  occurs only in \<open>m2\<close> returns \<open>a\<close>, and a search for a token that occurs only in \<open>m1\<close> should
  not. The code keeps the old postings: with \<open>m1\<close> named \<open>alpha\<close> and \<open>m2\<close> named \<open>beta\<close>, the
  engine holds only \<open>m2\<close> for \<open>a\<close>, the token \<open>alpha\<close> is still posted for \<open>a\<close>, and searching
  the index for \<open>alpha\<close> still returns \<open>a\<close>.
\<close>

theorem readded_agent_stale_posting:
  "agents_map readded_engine = [(''a'', agent_named ''beta'')]
   \<and> documents (searchIndex readded_engine) = [(''a'', agent_named ''beta'')]
   \<and> index (searchIndex readded_engine) = [(''alpha'', [''a'']), (''beta'', [''a''])]
   \<and> SearchIndex_search (searchIndex readded_engine) ''beta'' = [''a'']
   \<and> SearchIndex_search (searchIndex readded_engine) ''alpha'' = [''a'']"
  by code_simp

section \<open>Verification: pagination\<close>

lemma js_slice_nonneg:
  "0 \<le> start \<Longrightarrow> 0 \<le> n \<Longrightarrow> js_slice xs start (start + n) = take (nat n) (drop (nat start) xs)"
  by (auto simp: js_slice_def Let_def min_def)

lemma search_results_limit:
  "search_results lc E (options\<lparr>limit := x\<rparr>) = search_results lc E options"
  by (simp add: search_results_def Let_def cong: if_cong)

text \<open>The sort only reorders.\<close>

lemma mset_insert_by: "mset (insert_by cmp x xs) = add_mset x (mset xs)"
  by (induction xs) simp_all

lemma mset_stable_sort_by: "mset (stable_sort_by cmp xs) = mset xs"
  by (induction xs) (simp_all add: stable_sort_by_def mset_insert_by)

lemma length_stable_sort_by: "length (stable_sort_by cmp xs) = length xs"
  using mset_stable_sort_by[of cmp xs] by (rule mset_eq_length)

text \<open>What a filter accepts: every filter field that is set must hold; a list-valued field
  holds when one of its values is in the agent's list; an empty list, an empty category and
  an absent field set nothing.\<close>

lemma filter_accepts_iff:
  "filter_accepts f agent \<longleftrightarrow>
     (or_empty (filter_capabilities f) = []
        \<or> (\<exists>v \<in> set (or_empty (filter_capabilities f)). v \<in> set (or_empty (capabilities agent))))
     \<and> (or_empty (filter_coding_languages f) = []
        \<or> (\<exists>v \<in> set (or_empty (filter_coding_languages f)).
              v \<in> set (or_empty (coding_languages agent))))
     \<and> (or_empty (filter_frameworks f) = []
        \<or> (\<exists>v \<in> set (or_empty (filter_frameworks f)). v \<in> set (or_empty (frameworks agent))))
     \<and> (filter_category f = None \<or> filter_category f = Some []
        \<or> category agent = filter_category f)
     \<and> (filter_difficulty f = None \<or> difficulty agent = filter_difficulty f)
     \<and> (filter_requires_internet f = None
        \<or> requires_internet agent = filter_requires_internet f)"
  by (auto simp: filter_accepts_def lacks_any_def list_ex_iff truthy_str_def
        split: option.splits)

text \<open>
  Claim C5. For every engine state and every \<open>search(options)\<close> call with a positive limit:
  the matching agents are the registered agents whose synthetic id is among the ids the
  index returns for the query (all of them without a query) and that the filters accept;
  the sort, if any, only reorders them; \<open>agents\<close> is the slice \<open>[offset, offset+limit)\<close> of
  that list, \<open>total\<close> is the number of matching agents, \<open>page\<close> is \<open>floor(offset/limit)+1\<close> and
  \<open>pageSize\<close> is the limit. With 25 registered agents and no query, filters or sort,
  \<open>search({limit:10, offset:20})\<close> returns 5 agents with \<open>total=25\<close>, \<open>page=3\<close>,
  \<open>pageSize=10\<close>.
\<close>

theorem search_pagination:
  "(limit options = Some l \<and> 0 < l \<longrightarrow>
      (let r = AgentSearchEngine_search lc E options;
           registered = map snd (agents_map E);
           matched =
             (if truthy_str (query options)
              then filter (\<lambda>agent. getAgentId agent
                              \<in> set (SearchIndex_search (searchIndex E) (or_empty (query options))))
                     registered
              else registered);
           filtered =
             (case filters options of
                None \<Rightarrow> matched
              | Some f \<Rightarrow> filter (filter_accepts f) matched);
           results =
             (case sort_option options of
                None \<Rightarrow> filtered
              | Some s \<Rightarrow> stable_sort_by (compare_agents lc s) filtered);
           off = or_default (offset options) 0
       in mset results = mset filtered
          \<and> agents r = js_slice results off (off + l)
          \<and> (0 \<le> off \<longrightarrow> agents r = take (nat l) (drop (nat off) results))
          \<and> total r = length filtered
          \<and> page r = off div l + 1
          \<and> pageSize r = l))
   \<and> (length (agents_map E) = 25 \<longrightarrow>
      (let r = AgentSearchEngine_search lc E (no_options\<lparr>limit := Some 10, offset := Some 20\<rparr>)
       in length (agents r) = 5 \<and> total r = 25 \<and> page r = 3 \<and> pageSize r = 10))"
  (is "?A \<and> ?B")
proof -
  have a: ?A
  proof (intro impI)
    assume h: "limit options = Some l \<and> 0 < l"
    then have lim: "or_default (Some l) 20 = l"
      by (simp add: or_default_def)
    from h show "let r = AgentSearchEngine_search lc E options;
           registered = map snd (agents_map E);
           matched =
             (if truthy_str (query options)
              then filter (\<lambda>agent. getAgentId agent
                              \<in> set (SearchIndex_search (searchIndex E) (or_empty (query options))))
                     registered
              else registered);
           filtered =
             (case filters options of
                None \<Rightarrow> matched
              | Some f \<Rightarrow> filter (filter_accepts f) matched);
           results =
             (case sort_option options of
                None \<Rightarrow> filtered
              | Some s \<Rightarrow> stable_sort_by (compare_agents lc s) filtered);
           off = or_default (offset options) 0
       in mset results = mset filtered
          \<and> agents r = js_slice results off (off + l)
          \<and> (0 \<le> off \<longrightarrow> agents r = take (nat l) (drop (nat off) results))
          \<and> total r = length filtered
          \<and> page r = off div l + 1
          \<and> pageSize r = l"
      by (cases "filters options"; cases "sort_option options")
         (simp_all add: AgentSearchEngine_search_def search_results_def applyFilters_def
            sortResults_def Let_def lim js_slice_nonneg mset_stable_sort_by
            length_stable_sort_by)
  qed
  have b: ?B
  proof (intro impI)
    assume n: "length (agents_map E) = 25"
    have res: "search_results lc E (no_options\<lparr>limit := Some 10, offset := Some 20\<rparr>)
               = map snd (agents_map E)"
      by (simp add: search_results_def no_options_def truthy_str_def)
    show "let r = AgentSearchEngine_search lc E (no_options\<lparr>limit := Some 10, offset := Some 20\<rparr>)
          in length (agents r) = 5 \<and> total r = 25 \<and> page r = 3 \<and> pageSize r = 10"
      using n by (simp add: AgentSearchEngine_search_def Let_def res or_default_def js_slice_def)
  qed
  from a b show ?thesis by blast
qed

lemma numbered_engine_25: "length (agents_map (numbered_engine 25)) = 25"
  by code_simp

lemma category_c1_page2_values:
  "limit category_c1_page2 = Some 1"
  "or_default (offset category_c1_page2) 0 = 1"
  "filters category_c1_page2 = Some (no_filters\<lparr>filter_category := Some ''c1''\<rparr>)"
  "query category_c1_page2 = None"
  "map name (map snd (agents_map categorised_engine)) = [''first'', ''second'', ''third'']"
  "map name (filter (filter_accepts (no_filters\<lparr>filter_category := Some ''c1''\<rparr>))
               (map snd (agents_map categorised_engine))) = [''first'', ''third'']"
  "map name (agents (AgentSearchEngine_search (\<lambda>a b. 0) categorised_engine category_c1_page2))
     = [''third'']"
  by code_simp+

theorem search_pagination_witness:
  "limit (no_options\<lparr>limit := Some 10, offset := Some 20\<rparr>) = Some 10 \<and> (0::int) < 10
   \<and> length (agents_map (numbered_engine 25)) = 25
   \<and> (let r = AgentSearchEngine_search (\<lambda>a b. 0) (numbered_engine 25)
                 (no_options\<lparr>limit := Some 10, offset := Some 20\<rparr>)
      in map name (agents r) = [''agent20'', ''agent21'', ''agent22'', ''agent23'', ''agent24'']
         \<and> length (agents r) = 5 \<and> total r = 25 \<and> page r = 3 \<and> pageSize r = 10)
   \<and> limit category_c1_page2 = Some 1 \<and> (0::int) < 1
   \<and> map name (map snd (agents_map categorised_engine)) = [''first'', ''second'', ''third'']
   \<and> (let r = AgentSearchEngine_search (\<lambda>a b. 0) categorised_engine category_c1_page2
      in map name (agents r) = [''third''] \<and> total r = 2 \<and> page r = 2 \<and> pageSize r = 1)"
proof -
  have h1: "limit (no_options\<lparr>limit := Some 10, offset := Some 20\<rparr>) = Some 10 \<and> (0::int) < 10"
    by (simp add: no_options_def)
  have ev: "map name (agents (AgentSearchEngine_search (\<lambda>a b. 0) (numbered_engine 25)
                 (no_options\<lparr>limit := Some 10, offset := Some 20\<rparr>)))
            = [''agent20'', ''agent21'', ''agent22'', ''agent23'', ''agent24'']"
    by code_simp
  note sp = search_pagination[of "no_options\<lparr>limit := Some 10, offset := Some 20\<rparr>" 10
        "\<lambda>a b. 0" "numbered_engine 25"]
  have p2: "let r = AgentSearchEngine_search (\<lambda>a b. 0) (numbered_engine 25)
                 (no_options\<lparr>limit := Some 10, offset := Some 20\<rparr>)
            in length (agents r) = 5 \<and> total r = 25 \<and> page r = 3 \<and> pageSize r = 10"
    using sp numbered_engine_25 by blast
  have h2: "limit category_c1_page2 = Some 1 \<and> (0::int) < 1"
    by (simp add: category_c1_page2_values)
  note sc = search_pagination[of category_c1_page2 1 "\<lambda>a b. 0" categorised_engine]
  from sc h2
  have "total (AgentSearchEngine_search (\<lambda>a b. 0) categorised_engine category_c1_page2)
          = length (filter (filter_accepts (no_filters\<lparr>filter_category := Some ''c1''\<rparr>))
                      (map snd (agents_map categorised_engine)))
        \<and> page (AgentSearchEngine_search (\<lambda>a b. 0) categorised_engine category_c1_page2)
          = 1 div 1 + 1
        \<and> pageSize (AgentSearchEngine_search (\<lambda>a b. 0) categorised_engine category_c1_page2) = 1"
    by (simp add: Let_def category_c1_page2_values truthy_str_def)
  moreover have "length (filter (filter_accepts (no_filters\<lparr>filter_category := Some ''c1''\<rparr>))
                      (map snd (agents_map categorised_engine))) = 2"
    using arg_cong[OF category_c1_page2_values(6), of length] by simp
  ultimately have p3: "let r = AgentSearchEngine_search (\<lambda>a b. 0) categorised_engine
                                 category_c1_page2
      in map name (agents r) = [''third''] \<and> total r = 2 \<and> page r = 2 \<and> pageSize r = 1"
    using category_c1_page2_values(7) by (simp add: Let_def)
  show ?thesis
    using h1 numbered_engine_25 ev p2 h2 category_c1_page2_values(5) p3
    unfolding Let_def by blast
qed

text \<open>
  Claim C10. For every engine state and every offset, \<open>search\<close> with limit 0 behaves as with
  the default limit 20: the zero is treated as absent, so the result is the slice of up to 20
  agents, \<open>pageSize\<close> is 20 and \<open>page\<close> is \<open>floor(offset/20)+1\<close>.
\<close>

theorem search_limit_zero_is_default:
  "AgentSearchEngine_search lc E (options\<lparr>limit := Some 0\<rparr>)
     = AgentSearchEngine_search lc E (options\<lparr>limit := None\<rparr>)
   \<and> AgentSearchEngine_search lc E (options\<lparr>limit := Some 0\<rparr>)
     = AgentSearchEngine_search lc E (options\<lparr>limit := Some 20\<rparr>)
   \<and> pageSize (AgentSearchEngine_search lc E (options\<lparr>limit := Some 0\<rparr>)) = 20
   \<and> page (AgentSearchEngine_search lc E (options\<lparr>limit := Some 0\<rparr>))
     = or_default (offset options) 0 div 20 + 1
   \<and> agents (AgentSearchEngine_search lc E (options\<lparr>limit := Some 0\<rparr>))
     = js_slice (search_results lc E options)
         (or_default (offset options) 0) (or_default (offset options) 0 + 20)"
  by (simp add: AgentSearchEngine_search_def search_results_limit Let_def)
     (simp add: or_default_def)

section \<open>Verification: normalizeMetadata\<close>

lemma set_new_Set_aux: "set (foldl (\<lambda>s x. set_add x s) acc xs) = set acc \<union> set xs"
  by (induction xs arbitrary: acc) (auto simp: set_add_def)

lemma distinct_new_Set_aux: "distinct acc \<Longrightarrow> distinct (foldl (\<lambda>s x. set_add x s) acc xs)"
  by (induction xs arbitrary: acc) (auto simp: set_add_def)

lemma set_new_Set: "set (new_Set xs) = set xs"
  by (simp add: new_Set_def set_new_Set_aux)

lemma distinct_new_Set: "distinct (new_Set xs)"
  by (simp add: new_Set_def distinct_new_Set_aux)

lemma sort_new_Set: "sort (new_Set xs) = sorted_list_of_set (set xs)"
proof -
  have "sorted (sort (new_Set xs))" "distinct (sort (new_Set xs))"
       "set (sort (new_Set xs)) = set xs"
    by (simp_all add: distinct_new_Set set_new_Set)
  then show ?thesis
    by (metis finite_set sorted_list_of_set.idem_if_sorted_distinct)
qed

lemma normalize_array_eq:
  "normalize_array arr = map_option (\<lambda>xs. sorted_list_of_set (set xs)) arr"
  by (simp add: normalize_array_def sort_new_Set)

text \<open>
  Claim C8, as amended. \<open>normalizeMetadata\<close> replaces each of the twelve arrays
  \<open>capabilities, coding_languages, frameworks, tools, technologies, industries, skills,
  domains, languages, tags, keywords, use_cases\<close> that is present with its deduplicated,
  sorted version. It leaves \<open>dependencies\<close>, \<open>integrations\<close>, \<open>apis\<close> and \<open>maintainers\<close> as they
  are, trims the top-level string fields, and leaves everything else as it is.
\<close>

theorem normalizeMetadata_fields:
  "capabilities (normalizeMetadata m) = map_option (\<lambda>xs. sorted_list_of_set (set xs)) (capabilities m)
   \<and> coding_languages (normalizeMetadata m)
       = map_option (\<lambda>xs. sorted_list_of_set (set xs)) (coding_languages m)
   \<and> frameworks (normalizeMetadata m) = map_option (\<lambda>xs. sorted_list_of_set (set xs)) (frameworks m)
   \<and> tools (normalizeMetadata m) = map_option (\<lambda>xs. sorted_list_of_set (set xs)) (tools m)
   \<and> technologies (normalizeMetadata m)
       = map_option (\<lambda>xs. sorted_list_of_set (set xs)) (technologies m)
   \<and> industries (normalizeMetadata m) = map_option (\<lambda>xs. sorted_list_of_set (set xs)) (industries m)
   \<and> skills (normalizeMetadata m) = map_option (\<lambda>xs. sorted_list_of_set (set xs)) (skills m)
   \<and> domains (normalizeMetadata m) = map_option (\<lambda>xs. sorted_list_of_set (set xs)) (domains m)
   \<and> languages (normalizeMetadata m) = map_option (\<lambda>xs. sorted_list_of_set (set xs)) (languages m)
   \<and> tags (normalizeMetadata m) = map_option (\<lambda>xs. sorted_list_of_set (set xs)) (tags m)
   \<and> keywords' (normalizeMetadata m) = map_option (\<lambda>xs. sorted_list_of_set (set xs)) (keywords' m)
   \<and> use_cases (normalizeMetadata m) = map_option (\<lambda>xs. sorted_list_of_set (set xs)) (use_cases m)
   \<and> dependencies (normalizeMetadata m) = dependencies m
   \<and> integrations (normalizeMetadata m) = integrations m
   \<and> apis (normalizeMetadata m) = apis m
   \<and> maintainers (normalizeMetadata m) = maintainers m
   \<and> name (normalizeMetadata m) = trim (name m)
   \<and> version (normalizeMetadata m) = map_option trim (version m)
   \<and> description (normalizeMetadata m) = map_option trim (description m)
   \<and> role (normalizeMetadata m) = map_option trim (role m)
   \<and> specialization (normalizeMetadata m) = map_option trim (specialization m)
   \<and> author (normalizeMetadata m) = map_option trim (author m)
   \<and> organization (normalizeMetadata m) = map_option trim (organization m)
   \<and> email (normalizeMetadata m) = map_option trim (email m)
   \<and> license (normalizeMetadata m) = map_option trim (license m)
   \<and> created (normalizeMetadata m) = map_option trim (created m)
   \<and> updated (normalizeMetadata m) = map_option trim (updated m)
   \<and> category (normalizeMetadata m) = map_option trim (category m)
   \<and> subcategory (normalizeMetadata m) = map_option trim (subcategory m)
   \<and> model_requirements (normalizeMetadata m) = model_requirements m
   \<and> parameters (normalizeMetadata m) = parameters m
   \<and> difficulty (normalizeMetadata m) = difficulty m
   \<and> requires_internet (normalizeMetadata m) = requires_internet m"
  by (simp add: normalizeMetadata_def trim_strings_def normalize_arrays_def normalize_array_eq)

text \<open>The claim as stated fails for \<open>dependencies\<close> (and likewise \<open>integrations\<close> and
  \<open>apis\<close>): a list with a duplicate, not in order, comes back unchanged.\<close>

theorem normalizeMetadata_dependencies_counterexample:
  "dependencies (normalizeMetadata ((agent_named ''x'')\<lparr>dependencies := Some [''b'', ''a'', ''b'']\<rparr>))
     = Some [''b'', ''a'', ''b'']
   \<and> sorted_list_of_set (set [''b'', ''a'', ''b'']) = [''a'', ''b'']
   \<and> dependencies (normalizeMetadata ((agent_named ''x'')\<lparr>dependencies := Some [''b'', ''a'', ''b'']\<rparr>))
     \<noteq> map_option (\<lambda>xs. sorted_list_of_set (set xs)) (Some [''b'', ''a'', ''b''])"
  by code_simp

section \<open>Verification: checkModelCompatibility\<close>

lemma some_entry_matches_code:
  "some_entry_matches models availableModel
   = list_ex (\<lambda>model. str_includes (toLowerCase availableModel) (toLowerCase model)) models"
  by (simp add: some_entry_matches_def list_ex_iff)

lemma some_includes_strings:
  "some_includes availableModel (map JStr models)
   = Inr (some_entry_matches models availableModel)"
  by (induction models) (auto simp: some_entry_matches_def)

lemma array_join_strings: "array_join J sep (map JStr models) = join sep models"
  by (simp add: array_join_def comp_def)

lemma optional_chain_absent:
  "optional_chain JUndefined prop = JUndefined"
  by (simp add: optional_chain_def)

text \<open>
  Claim C9, as amended. For metadata without \<open>model_requirements\<close>,
  \<open>checkModelCompatibility\<close> returns with no issues. For metadata whose \<open>preferred_models\<close> is
  absent or an array of strings and whose \<open>min_context\<close> is absent or a number, it returns;
  it adds the preferred-models issue exactly when \<open>preferred_models\<close> is present (empty or
  not) and none of its entries is a case-insensitive substring of the model; it adds the
  context issue exactly when \<open>min_context\<close> is present and not zero and the context size is
  below it; \<open>compatible\<close> is true exactly when there are no issues.
\<close>

theorem checkModelCompatibility_issues:
  "(map_of kvs ''model_requirements'' = None \<longrightarrow>
      checkModelCompatibility J (JObj kvs) availableModel availableContext
        = Inr \<lparr> model_compatible = True, issues = [] \<rparr>)
   \<and> (preferred = optional_chain (get_key kvs ''model_requirements'') ''preferred_models''
        \<and> (preferred = JUndefined \<or> preferred = JArr (map JStr models))
        \<and> required = optional_chain (get_key kvs ''model_requirements'') ''min_context''
        \<and> (required = JUndefined \<or> required = JNum n) \<longrightarrow>
      (let found =
             (if preferred \<noteq> JUndefined \<and> \<not> some_entry_matches models availableModel
              then [''Model '' @ availableModel @ '' is not in preferred models: ''
                    @ join '', '' models]
              else [])
             @ (if required \<noteq> JUndefined \<and> n \<noteq> 0 \<and> availableContext < n
                then [''Insufficient context: requires '' @ js_String J (JNum n)
                      @ '', available '' @ js_String J (JNum availableContext)]
                else [])
       in checkModelCompatibility J (JObj kvs) availableModel availableContext
            = Inr \<lparr> model_compatible = (found = []), issues = found \<rparr>))"
  (is "?A \<and> ?B")
proof -
  have a: ?A
    by (simp add: checkModelCompatibility_def get_key_def optional_chain_absent Let_def)
  have b: ?B
    by (auto simp: checkModelCompatibility_def Let_def some_includes_strings
          array_join_strings preferred_issue_def context_issue_def less_than_def)
  from a b show ?thesis by blast
qed

lemma typed_agent_hypotheses:
  "JArr [JStr ''Claude'', JStr ''GPT-4'']
     = optional_chain
         (get_key (agent_requiring [(''min_context'', JNum 8),
                                    (''preferred_models'', JArr [JStr ''Claude'', JStr ''GPT-4''])])
            ''model_requirements'') ''preferred_models''"
  "JArr [JStr ''Claude'', JStr ''GPT-4''] = JArr (map JStr [''Claude'', ''GPT-4''])"
  "JNum 8
     = optional_chain
         (get_key (agent_requiring [(''min_context'', JNum 8),
                                    (''preferred_models'', JArr [JStr ''Claude'', JStr ''GPT-4''])])
            ''model_requirements'') ''min_context''"
  "some_entry_matches [''Claude'', ''GPT-4''] ''gpt-4-turbo''"
  "map_of [(''name'', JStr ''agent'')] ''model_requirements'' = None"
  by code_simp+

lemma example_js_numbers:
  "js_String example_js (JNum 8) = ''8''" "js_String example_js (JNum 4) = ''4''"
  by code_simp+

theorem checkModelCompatibility_issues_witness:
  "map_of [(''name'', JStr ''agent'')] ''model_requirements'' = None
   \<and> checkModelCompatibility example_js (JObj [(''name'', JStr ''agent'')]) ''gpt-4'' 8
       = Inr \<lparr> model_compatible = True, issues = [] \<rparr>
   \<and> JArr [JStr ''Claude'', JStr ''GPT-4'']
       = optional_chain
           (get_key (agent_requiring [(''min_context'', JNum 8),
                                      (''preferred_models'', JArr [JStr ''Claude'', JStr ''GPT-4''])])
              ''model_requirements'') ''preferred_models''
   \<and> JNum 8
       = optional_chain
           (get_key (agent_requiring [(''min_context'', JNum 8),
                                      (''preferred_models'', JArr [JStr ''Claude'', JStr ''GPT-4''])])
              ''model_requirements'') ''min_context''
   \<and> checkModelCompatibility example_js
         (JObj (agent_requiring [(''min_context'', JNum 8),
                                 (''preferred_models'', JArr [JStr ''Claude'', JStr ''GPT-4''])]))
         ''gpt-4-turbo'' 4
       = Inr \<lparr> model_compatible = False,
               issues = [''Insufficient context: requires 8, available 4''] \<rparr>"
proof -
  note absent = checkModelCompatibility_issues[of "[(''name'', JStr ''agent'')]" example_js
      "''gpt-4''" 8]
  note typed = checkModelCompatibility_issues[of
      "agent_requiring [(''min_context'', JNum 8),
                        (''preferred_models'', JArr [JStr ''Claude'', JStr ''GPT-4''])]"
      example_js "''gpt-4-turbo''" 4 "JArr [JStr ''Claude'', JStr ''GPT-4'']"
      "[''Claude'', ''GPT-4'']" "JNum 8" 8]
  from absent typed_agent_hypotheses(5)
  have r1: "checkModelCompatibility example_js (JObj [(''name'', JStr ''agent'')]) ''gpt-4'' 8
       = Inr \<lparr> model_compatible = True, issues = [] \<rparr>"
    by blast
  from typed typed_agent_hypotheses(1,2,3)
  have "let found =
             (if JArr [JStr ''Claude'', JStr ''GPT-4''] \<noteq> JUndefined
                 \<and> \<not> some_entry_matches [''Claude'', ''GPT-4''] ''gpt-4-turbo''
              then [''Model '' @ ''gpt-4-turbo'' @ '' is not in preferred models: ''
                    @ join '', '' [''Claude'', ''GPT-4'']]
              else [])
             @ (if JNum 8 \<noteq> JUndefined \<and> (8::rat) \<noteq> 0 \<and> (4::rat) < 8
                then [''Insufficient context: requires '' @ js_String example_js (JNum 8)
                      @ '', available '' @ js_String example_js (JNum 4)]
                else [])
       in checkModelCompatibility example_js
            (JObj (agent_requiring [(''min_context'', JNum 8),
                                    (''preferred_models'', JArr [JStr ''Claude'', JStr ''GPT-4''])]))
            ''gpt-4-turbo'' 4
            = Inr \<lparr> model_compatible = (found = []), issues = found \<rparr>"
    by blast
  then have r2: "checkModelCompatibility example_js
         (JObj (agent_requiring [(''min_context'', JNum 8),
                                 (''preferred_models'', JArr [JStr ''Claude'', JStr ''GPT-4''])]))
         ''gpt-4-turbo'' 4
       = Inr \<lparr> model_compatible = False,
               issues = [''Insufficient context: requires 8, available 4''] \<rparr>"
    using typed_agent_hypotheses(4) by (simp add: Let_def example_js_numbers)
  from r1 r2 typed_agent_hypotheses(1,3,5) show ?thesis by blast
qed

text \<open>The claim as stated fails for an empty \<open>preferred_models\<close> list, which is present but
  not non-empty: the issue is added and the result is incompatible. It also fails for
  \<open>min_context = 0\<close> with a negative context size, where no issue is added.\<close>

theorem checkModelCompatibility_empty_list_counterexample:
  "optional_chain (get_key (agent_requiring [(''preferred_models'', JArr [])])
       ''model_requirements'') ''preferred_models'' = JArr []
   \<and> checkModelCompatibility example_js
        (JObj (agent_requiring [(''preferred_models'', JArr [])])) ''gpt-4'' 8
     = Inr \<lparr> model_compatible = False,
             issues = [''Model gpt-4 is not in preferred models: ''] \<rparr>
   \<and> checkModelCompatibility example_js
        (JObj (agent_requiring [(''min_context'', JNum 0)])) ''gpt-4'' (- 1)
     = Inr \<lparr> model_compatible = True, issues = [] \<rparr>"
  by code_simp

text \<open>Outside the typed metadata the function can throw: on a \<open>preferred_models\<close> that is a
  text, on an entry that is not a text and is reached, and on an agent that is \<open>undefined\<close>.\<close>

lemma checkModelCompatibility_throws:
  "checkModelCompatibility J (JObj (agent_requiring [(''preferred_models'', JStr ''gpt-4'')]))
     ''gpt-4'' 8
   = Inl (TypeError ''agent.model_requirements.preferred_models.some is not a function'')"
  "checkModelCompatibility J (JObj (agent_requiring [(''preferred_models'', JArr [JNum 4])]))
     ''gpt-4'' 8
   = Inl (TypeError ''model.toLowerCase is not a function'')"
  "checkModelCompatibility J JUndefined ''gpt-4'' 8
   = Inl (cannot_read JUndefined ''model_requirements'')"
  by (simp_all add: checkModelCompatibility_def agent_requiring_def get_key_def
        optional_chain_def not_a_function_def Let_def)

section \<open>Verification: checkCompatibility\<close>

text \<open>What the code does: it answers \<open>Invalid version format\<close> whenever \<open>clean\<close> rejects the
  required or the provided text, whatever \<open>satisfies\<close> would say; where \<open>clean\<close> accepts
  both, it asks \<open>satisfies\<close>, then compares the majors, then asks \<open>lt\<close>.\<close>

lemma checkCompatibility_clean_guard:
  "semver_clean L req = None \<or> semver_clean L prov = None \<Longrightarrow>
   checkCompatibility L req prov = invalid_format"
  by (auto simp: checkCompatibility_def checkCompatibility_try_def split: option.splits)

lemma checkCompatibility_after_clean:
  assumes "semver_clean L req = Some cr" "semver_clean L prov = Some cp"
  shows "semver_satisfies L cp req \<Longrightarrow> checkCompatibility L req prov = is_compatible"
    and "\<not> semver_satisfies L cp req \<Longrightarrow> semver_major L cr = Inr a \<Longrightarrow>
         semver_major L cp = Inr b \<Longrightarrow> a \<noteq> b \<Longrightarrow>
         checkCompatibility L req prov = major_mismatch a b"
    and "\<not> semver_satisfies L cp req \<Longrightarrow> semver_major L cr = Inr a \<Longrightarrow>
         semver_major L cp = Inr a \<Longrightarrow> semver_lt L cp cr = Inr older \<Longrightarrow>
         checkCompatibility L req prov = (if older then too_old req prov else is_compatible)"
  using assms by (simp_all add: checkCompatibility_def checkCompatibility_try_def)

lemma checkCompatibility_examples:
  "checkCompatibility node_semver ''1.2.0'' ''2.0.0'' = major_mismatch 1 2"
  "suggestedVersion (major_mismatch 1 2) = Some ''1.x.x''"
  "checkCompatibility node_semver ''1.5.0'' ''1.2.0'' = too_old ''1.5.0'' ''1.2.0''"
  "checkCompatibility node_semver ''1.2.0'' ''1.5.0'' = is_compatible"
  "checkCompatibility node_semver ''1.2.0'' ''v1.2.0+build'' = is_compatible"
  by code_simp+

text \<open>
  Claim C4. \<open>checkCompatibility\<close> is to check first whether the provided version satisfies
  \<open>required\<close> as a range expression, so that \<open>checkCompatibility("^1.2.0", "1.3.0")\<close> is
  compatible. The code does not: it first passes \<open>required\<close> through \<open>semver.clean\<close>, which
  accepts a single version and no range, and answers \<open>Invalid version format\<close>. For the
  ranges \<open>^1.2.0\<close> and \<open>>=1.0.0\<close>, which the provided versions \<open>1.3.0\<close> and \<open>2.0.0\<close> satisfy,
  the result is incompatible.
\<close>

theorem checkCompatibility_rejects_ranges:
  "semver_satisfies node_semver ''1.3.0'' ''^1.2.0''
   \<and> semver_clean node_semver ''^1.2.0'' = None
   \<and> checkCompatibility node_semver ''^1.2.0'' ''1.3.0''
       = \<lparr> compatible = False, reason = Some ''Invalid version format'',
           suggestedVersion = None \<rparr>
   \<and> semver_satisfies node_semver ''2.0.0'' ''>=1.0.0''
   \<and> semver_clean node_semver ''>=1.0.0'' = None
   \<and> checkCompatibility node_semver ''>=1.0.0'' ''2.0.0''
       = \<lparr> compatible = False, reason = Some ''Invalid version format'',
           suggestedVersion = None \<rparr>"
  by code_simp

section \<open>Verification: validate\<close>

lemma get_prop_total:
  "m \<noteq> JUndefined \<Longrightarrow> m \<noteq> JNull \<Longrightarrow> \<exists>v. get_prop m prop = Inr v"
  by (cases m) simp_all

lemma get_prop_length_truthy: "truthy caps \<Longrightarrow> \<exists>v. get_prop caps ''length'' = Inr v"
  by (cases caps) simp_all

lemma validate_errors_normal:
  assumes "m \<noteq> JUndefined" "m \<noteq> JNull" "metadata af = m"
  shows "errors (validate Z af)
           = map zod_error (safeParse (AgentFrontmatterSchema Z) (JObj [(''agent'', m)]))
       \<and> valid (validate Z af) = (errors (validate Z af) = [])"
proof -
  obtain v1 where v1: "get_prop m ''version'' = Inr v1"
    using get_prop_total[OF assms(1,2)] by blast
  obtain v2 where v2: "get_prop m ''description'' = Inr v2"
    using get_prop_total[OF assms(1,2)] by blast
  obtain v3 where v3: "get_prop m ''author'' = Inr v3"
    using get_prop_total[OF assms(1,2)] by blast
  obtain v4 where v4: "get_prop m ''organization'' = Inr v4"
    using get_prop_total[OF assms(1,2)] by blast
  obtain v5 where v5: "get_prop m ''capabilities'' = Inr v5"
    using get_prop_total[OF assms(1,2)] by blast
  have v6: "truthy v5 \<Longrightarrow> \<exists>v. get_prop v5 ''length'' = Inr v"
    by (rule get_prop_length_truthy)
  show ?thesis
    using v6 by (auto simp: validate_def Let_def assms(3) v1 v2 v3 v4 v5)
qed

lemma validate_errors_thrown:
  assumes "metadata af = JUndefined \<or> metadata af = JNull"
  shows "validate Z af
           = caught (map zod_error
                       (safeParse (AgentFrontmatterSchema Z) (JObj [(''agent'', metadata af)])))
               [] (cannot_read (metadata af) ''version'')"
  using assms by (auto simp: validate_def Let_def)

lemma z_object_key_ok:
  assumes "z_object Z shape mode p (JObj kvs) = []" "(key, keyValidator) \<in> set shape"
  shows "keyValidator (p @ [key]) (get_key kvs key) = []"
  using assms by (auto simp: z_object_def Let_def split: if_splits)

lemma frontmatter_issues:
  "safeParse (AgentFrontmatterSchema Z) (JObj [(''agent'', m)])
     = z_object Z (AgentMetadataShape Z) Strip [''agent''] m"
  by (simp add: safeParse_def AgentFrontmatterSchema_def AgentMetadataSchema_def z_object_def
        get_key_def)

lemma valid_capabilities:
  assumes "safeParse (AgentFrontmatterSchema Z) (JObj [(''agent'', JObj kvs)]) = []"
  shows "get_key kvs ''capabilities'' = JUndefined \<or> (\<exists>xs. get_key kvs ''capabilities'' = JArr xs)"
proof -
  have "(''capabilities'', opt_strings Z) \<in> set (AgentMetadataShape Z)"
    by (simp add: AgentMetadataShape_def)
  from z_object_key_ok[OF assms[unfolded frontmatter_issues] this]
  show ?thesis
    by (auto simp: opt_strings_def z_optional_def z_array_def split: if_splits json.splits)
qed

lemma valid_name:
  assumes "safeParse (AgentFrontmatterSchema Z) (JObj [(''agent'', JObj kvs)]) = []"
  shows "\<exists>n. get_key kvs ''name'' = JStr n \<and> n \<noteq> []"
proof -
  have "(''name'', z_string Z (min_length_1 ''Agent name is required''))
          \<in> set (AgentMetadataShape Z)"
    by (simp add: AgentMetadataShape_def)
  from z_object_key_ok[OF assms[unfolded frontmatter_issues] this]
  show ?thesis
    by (auto simp: z_string_def min_length_1_def split: if_splits json.splits)
qed

text \<open>
  Claim C6, as amended. For every AgentFile whose metadata is an object without schema
  violations (so its name is a non-empty string) and without \<open>version\<close>, \<open>description\<close>,
  \<open>author\<close> and \<open>organization\<close>, \<open>validate\<close> returns \<open>valid=true\<close> with no errors and with the
  three warnings on \<open>version\<close>, \<open>description\<close> and \<open>author\<close>, followed by a fourth warning on
  \<open>capabilities\<close> exactly when \<open>capabilities\<close> is an empty array. The warnings do not change
  the \<open>valid\<close> flag.
\<close>

theorem validate_name_only:
  assumes "metadata af = JObj kvs"
    and "safeParse (AgentFrontmatterSchema Z) (JObj [(''agent'', JObj kvs)]) = []"
    and "map_of kvs ''version'' = None" and "map_of kvs ''description'' = None"
    and "map_of kvs ''author'' = None" and "map_of kvs ''organization'' = None"
  shows "(\<exists>n. get_key kvs ''name'' = JStr n \<and> n \<noteq> [])
       \<and> validate Z af =
           \<lparr> valid = True, errors = [],
             warnings = [version_warning, description_warning, author_warning]
                        @ (if get_key kvs ''capabilities'' = JArr [] then [capabilities_warning]
                           else []) \<rparr>"
proof -
  from valid_capabilities[OF assms(2)]
  have "validate Z af =
           \<lparr> valid = True, errors = [],
             warnings = [version_warning, description_warning, author_warning]
                        @ (if get_key kvs ''capabilities'' = JArr [] then [capabilities_warning]
                           else []) \<rparr>"
    using assms by (auto simp: validate_def Let_def get_key_def)
  with valid_name[OF assms(2)] show ?thesis by blast
qed

lemma name_only_hypotheses:
  "metadata (agent_file (JObj name_only)) = JObj name_only"
  "safeParse (AgentFrontmatterSchema example_zod) (JObj [(''agent'', JObj name_only)]) = []"
  "map_of name_only ''version'' = None" "map_of name_only ''description'' = None"
  "map_of name_only ''author'' = None" "map_of name_only ''organization'' = None"
  by code_simp+

lemma name_only_capabilities: "get_key name_only ''capabilities'' \<noteq> JArr []"
  by code_simp

theorem validate_name_only_witness:
  "metadata (agent_file (JObj name_only)) = JObj name_only
   \<and> safeParse (AgentFrontmatterSchema example_zod) (JObj [(''agent'', JObj name_only)]) = []
   \<and> map_of name_only ''version'' = None \<and> map_of name_only ''description'' = None
   \<and> map_of name_only ''author'' = None \<and> map_of name_only ''organization'' = None
   \<and> validate example_zod (agent_file (JObj name_only))
       = \<lparr> valid = True, errors = [],
           warnings = [version_warning, description_warning, author_warning] \<rparr>"
  using validate_name_only[OF name_only_hypotheses] name_only_hypotheses name_only_capabilities
  by simp

text \<open>The claim as stated fails for metadata with a name and an empty \<open>capabilities\<close> array:
  it has no schema violation and none of the four fields, and gets four warnings.\<close>

theorem validate_empty_capabilities_counterexample:
  "safeParse (AgentFrontmatterSchema example_zod)
       (JObj [(''agent'', JObj name_and_empty_capabilities)]) = []
   \<and> map_of name_and_empty_capabilities ''version'' = None
   \<and> map_of name_and_empty_capabilities ''description'' = None
   \<and> map_of name_and_empty_capabilities ''author'' = None
   \<and> map_of name_and_empty_capabilities ''organization'' = None
   \<and> valid (validate example_zod (agent_file (JObj name_and_empty_capabilities)))
   \<and> map warning_field (warnings (validate example_zod (agent_file (JObj name_and_empty_capabilities))))
       = [''version'', ''description'', ''author'', ''capabilities'']
   \<and> length (warnings (validate example_zod (agent_file (JObj name_and_empty_capabilities)))) \<noteq> 3"
  by code_simp

text \<open>
  Claim C7. For every input \<open>validate\<close> returns a result: \<open>valid\<close> is true exactly when the
  error list is empty; the errors start with one error per schema issue, and for an object
  the schema issues are those of every key of the schema, not only of the first failing one;
  when reading the metadata fails (it is \<open>undefined\<close> or \<open>null\<close>), the failure is caught and
  becomes one further error on field \<open>agent\<close>, with \<open>valid=false\<close>.
\<close>

theorem validate_never_throws:
  "valid (validate Z af) = (errors (validate Z af) = [])
   \<and> take (length (safeParse (AgentFrontmatterSchema Z) (JObj [(''agent'', metadata af)])))
        (errors (validate Z af))
       = map zod_error (safeParse (AgentFrontmatterSchema Z) (JObj [(''agent'', metadata af)]))
   \<and> (metadata af = JObj kvs \<longrightarrow>
        safeParse (AgentFrontmatterSchema Z) (JObj [(''agent'', metadata af)])
          = concat (map (\<lambda>(key, keyValidator). keyValidator [''agent'', key] (get_key kvs key))
                      (AgentMetadataShape Z)))
   \<and> (metadata af \<noteq> JUndefined \<and> metadata af \<noteq> JNull \<longrightarrow>
        errors (validate Z af)
          = map zod_error (safeParse (AgentFrontmatterSchema Z) (JObj [(''agent'', metadata af)])))
   \<and> (metadata af = JUndefined \<or> metadata af = JNull \<longrightarrow>
        validate Z af
          = \<lparr> valid = False,
              errors = map zod_error
                         (safeParse (AgentFrontmatterSchema Z) (JObj [(''agent'', metadata af)]))
                       @ [\<lparr> error_field = ''agent'',
                            error_message = error_text (cannot_read (metadata af) ''version''),
                            error_value = JUndefined \<rparr>],
              warnings = [] \<rparr>)"
  (is "?V \<and> ?T \<and> ?O \<and> ?N \<and> ?F")
proof -
  have f: ?F
    using validate_errors_thrown[of af Z] by (auto simp: caught_def)
  have n: ?N
    using validate_errors_normal[of "metadata af" af Z] by blast
  have o: ?O
    by (auto simp: frontmatter_issues z_object_def)
  have v: ?V
  proof (cases "metadata af = JUndefined \<or> metadata af = JNull")
    case True
    with f show ?thesis by simp
  next
    case False
    with validate_errors_normal[of "metadata af" af Z] show ?thesis by blast
  qed
  have t: ?T
  proof (cases "metadata af = JUndefined \<or> metadata af = JNull")
    case True
    with f show ?thesis by simp
  next
    case False
    with n show ?thesis by simp
  qed
  from v t o n f show ?thesis by blast
qed

lemma two_violations_errors:
  "map error_field (errors (validate example_zod (agent_file (JObj two_violations))))
     = [''name'', ''version'']"
  by code_simp

lemma undefined_metadata:
  "metadata (agent_file JUndefined) = JUndefined"
  "map error_field
     (map zod_error (safeParse (AgentFrontmatterSchema example_zod)
                       (JObj [(''agent'', metadata (agent_file JUndefined))])))
   = [[]]"
  by code_simp+

theorem validate_never_throws_witness:
  "metadata (agent_file JUndefined) = JUndefined
   \<and> \<not> valid (validate example_zod (agent_file JUndefined))
   \<and> map error_field (errors (validate example_zod (agent_file JUndefined))) = [[], ''agent'']
   \<and> warnings (validate example_zod (agent_file JUndefined)) = []
   \<and> metadata (agent_file (JObj two_violations)) = JObj two_violations
   \<and> metadata (agent_file (JObj two_violations)) \<noteq> JUndefined
   \<and> metadata (agent_file (JObj two_violations)) \<noteq> JNull
   \<and> map error_field (errors (validate example_zod (agent_file (JObj two_violations))))
       = [''name'', ''version'']
   \<and> valid (validate example_zod (agent_file (JObj two_violations)))
       = (errors (validate example_zod (agent_file (JObj two_violations))) = [])"
proof -
  note u = validate_never_throws[of example_zod "agent_file JUndefined" "[]"]
  note t = validate_never_throws[of example_zod "agent_file (JObj two_violations)" two_violations]
  have m: "metadata (agent_file (JObj two_violations)) = JObj two_violations"
    by (simp add: agent_file_def)
  from u undefined_metadata(1)
  have r: "validate example_zod (agent_file JUndefined)
          = \<lparr> valid = False,
              errors = map zod_error
                         (safeParse (AgentFrontmatterSchema example_zod)
                            (JObj [(''agent'', metadata (agent_file JUndefined))]))
                       @ [\<lparr> error_field = ''agent'',
                            error_message = error_text (cannot_read (metadata (agent_file JUndefined)) ''version''),
                            error_value = JUndefined \<rparr>],
              warnings = [] \<rparr>"
    by blast
  have r1: "\<not> valid (validate example_zod (agent_file JUndefined))"
    and r2: "warnings (validate example_zod (agent_file JUndefined)) = []"
    and r3: "map error_field (errors (validate example_zod (agent_file JUndefined))) = [[], ''agent'']"
    unfolding r using undefined_metadata(2) by simp_all
  from t have r4: "valid (validate example_zod (agent_file (JObj two_violations)))
       = (errors (validate example_zod (agent_file (JObj two_violations))) = [])"
    by blast
  from r1 r2 r3 r4 m undefined_metadata(1) two_violations_errors show ?thesis by simp
qed

end
